theory Spec2Isabelle
  imports Complex_Main "HOL-Library.Word"
begin

section \<open>Overview\<close>

text \<open>
  This theory embeds the packet codec of f1-23-telemetry: the ctypes classes of
  \<open>f1_23_telemetry/packets.py\<close> with the methods of \<open>PacketMixin\<close>, the dispatch
  table \<open>HEADER_FIELD_TO_PACKET_TYPE\<close> and \<open>TelemetryListener.get\<close> of
  \<open>listener.py\<close>. The behaviour of the libraries the code calls is part of the model:
  ctypes on a little-endian host (\<open>sizeof\<close>, \<open>from_buffer_copy\<close>, attribute access,
  \<open>_pack_ = 1\<close>), \<open>round\<close> on floats and \<open>bytes.decode\<close>. Exceptions are values
  of the type \<open>error\<close>, and a function that can raise returns \<open>error + 'a\<close>.
\<close>

section \<open>The ctypes data model used by \<open>packets.py\<close>\<close>

text \<open>
  Every packet class of \<open>f1_23_telemetry/packets.py\<close> is a \<open>ctypes\<close> structure whose
  \<open>_fields_\<close> list gives the names and C types of its members. A class is modelled by the
  value of type \<open>ctype\<close> that describes it:
  \<^item> the simple types \<open>ctypes.c_uint8\<close>, ..., \<open>ctypes.c_char\<close> keep their names;
  \<^item> \<open>t * n\<close> is \<open>Array t n\<close>;
  \<^item> a subclass of \<open>Packet\<close> (a \<open>LittleEndianStructure\<close> with \<open>_pack_ = 1\<close> that mixes
    in \<open>PacketMixin\<close>) is \<open>Structure name fields\<close>;
  \<^item> a subclass of \<open>(ctypes.Union, PacketMixin)\<close> is \<open>Union_t name fields\<close>.
\<close>

type_synonym byte = "8 word"

datatype ctype =
    c_uint8 | c_int8 | c_uint16 | c_int16 | c_uint32 | c_uint64
  | c_float | c_double | c_char
  | Array ctype nat
  | Structure string "(string \<times> ctype) list"
  | Union_t string "(string \<times> ctype) list"

text \<open>
  \<open>ctypes.alignment\<close>: a simple type is aligned to its width, an array to its element,
  a union to the largest alignment of its members. \<open>_pack_ = 1\<close> caps the alignment of
  every field of a \<open>Packet\<close> at 1, so a \<open>Structure\<close> has alignment 1.
\<close>

fun alignment :: "ctype \<Rightarrow> nat"
  and alignment_union :: "(string \<times> ctype) list \<Rightarrow> nat" where
  "alignment c_uint8 = 1"
| "alignment c_int8 = 1"
| "alignment c_uint16 = 2"
| "alignment c_int16 = 2"
| "alignment c_uint32 = 4"
| "alignment c_uint64 = 8"
| "alignment c_float = 4"
| "alignment c_double = 8"
| "alignment c_char = 1"
| "alignment (Array t n) = alignment t"
| "alignment (Structure nm fs) = 1"
| "alignment (Union_t nm fs) = alignment_union fs"
| "alignment_union [] = 1"
| "alignment_union (f # fs) = max (alignment (snd f)) (alignment_union fs)"

definition round_up :: "nat \<Rightarrow> nat \<Rightarrow> nat" where
  "round_up n a = ((n + a - 1) div a) * a"

text \<open>
  \<open>ctypes.sizeof\<close>. With \<open>_pack_ = 1\<close> the fields of a structure follow each other
  without padding; the members of a union overlap at offset 0 and the union is as large
  as its largest member, rounded up to the union's alignment.
\<close>

fun sizeof :: "ctype \<Rightarrow> nat"
  and sizeof_fields :: "(string \<times> ctype) list \<Rightarrow> nat"
  and sizeof_members :: "(string \<times> ctype) list \<Rightarrow> nat" where
  "sizeof c_uint8 = 1"
| "sizeof c_int8 = 1"
| "sizeof c_uint16 = 2"
| "sizeof c_int16 = 2"
| "sizeof c_uint32 = 4"
| "sizeof c_uint64 = 8"
| "sizeof c_float = 4"
| "sizeof c_double = 8"
| "sizeof c_char = 1"
| "sizeof (Array t n) = sizeof t * n"
| "sizeof (Structure nm fs) = sizeof_fields fs"
| "sizeof (Union_t nm fs) = round_up (sizeof_members fs) (alignment_union fs)"
| "sizeof_fields [] = 0"
| "sizeof_fields (f # fs) = sizeof (snd f) + sizeof_fields fs"
| "sizeof_members [] = 0"
| "sizeof_members (f # fs) = max (sizeof (snd f)) (sizeof_members fs)"

section \<open>The packet classes\<close>

text \<open>The \<open>_fields_\<close> lists of \<open>packets.py\<close>, in the order of the file.\<close>

definition PacketHeader :: ctype where
  "PacketHeader = Structure ''PacketHeader''
    [(''packet_format'', c_int16),
     (''game_year'', c_uint8),
     (''game_major_version'', c_uint8),
     (''game_minor_version'', c_uint8),
     (''packet_version'', c_uint8),
     (''packet_id'', c_uint8),
     (''session_uid'', c_uint64),
     (''session_time'', c_float),
     (''frame_identifier'', c_uint32),
     (''overall_frame_identifier'', c_uint32),
     (''player_car_index'', c_uint8),
     (''secondary_player_car_index'', c_uint8)]"

definition CarMotionData :: ctype where
  "CarMotionData = Structure ''CarMotionData''
    [(''world_position_x'', c_float),
     (''world_position_y'', c_float),
     (''world_position_z'', c_float),
     (''world_velocity_x'', c_float),
     (''world_velocity_y'', c_float),
     (''world_velocity_z'', c_float),
     (''world_forward_dir_x'', c_int16),
     (''world_forward_dir_y'', c_int16),
     (''world_forward_dir_z'', c_int16),
     (''world_right_dir_x'', c_int16),
     (''world_right_dir_y'', c_int16),
     (''world_right_dir_z'', c_int16),
     (''g_force_lateral'', c_float),
     (''g_force_longitudinal'', c_float),
     (''g_force_vertical'', c_float),
     (''yaw'', c_float),
     (''pitch'', c_float),
     (''roll'', c_float)]"

definition PacketMotionData :: ctype where
  "PacketMotionData = Structure ''PacketMotionData''
    [(''header'', PacketHeader),
     (''car_motion_data'', Array CarMotionData 22)]"

definition MarshalZone :: ctype where
  "MarshalZone = Structure ''MarshalZone''
    [(''zone_start'', c_float),
     (''zone_flag'', c_int8)]"

definition WeatherForecastSample :: ctype where
  "WeatherForecastSample = Structure ''WeatherForecastSample''
    [(''session_type'', c_uint8),
     (''time_offset'', c_uint8),
     (''weather'', c_uint8),
     (''track_temperature'', c_int8),
     (''track_temperature_change'', c_int8),
     (''air_temperature'', c_int8),
     (''air_temperature_change'', c_int8),
     (''rain_percentage'', c_uint8)]"

definition PacketSessionData :: ctype where
  "PacketSessionData = Structure ''PacketSessionData''
    [(''header'', PacketHeader),
     (''weather'', c_uint8),
     (''track_temperature'', c_int8),
     (''air_temperature'', c_int8),
     (''total_laps'', c_uint8),
     (''track_length'', c_uint16),
     (''session_type'', c_uint8),
     (''track_id'', c_int8),
     (''formula'', c_uint8),
     (''session_time_left'', c_uint16),
     (''session_duration'', c_uint16),
     (''pit_speed_limit'', c_uint8),
     (''game_paused'', c_uint8),
     (''is_spectating'', c_uint8),
     (''spectator_car_index'', c_uint8),
     (''sli_pro_native_support'', c_uint8),
     (''num_marshal_zones'', c_uint8),
     (''marshal_zones'', Array MarshalZone 21),
     (''safety_car_status'', c_uint8),
     (''network_game'', c_uint8),
     (''num_weather_forecast_samples'', c_uint8),
     (''weather_forecast_samples'', Array WeatherForecastSample 56),
     (''forecast_accuracy'', c_uint8),
     (''ai_difficulty'', c_uint8),
     (''season_link_identifier'', c_uint32),
     (''weekend_link_identifier'', c_uint32),
     (''session_link_identifier'', c_uint32),
     (''pit_stop_window_ideal_lap'', c_uint8),
     (''pit_stop_window_latest_lap'', c_uint8),
     (''pit_stop_rejoin_position'', c_uint8),
     (''steering_assist'', c_uint8),
     (''braking_assist'', c_uint8),
     (''gearbox_assist'', c_uint8),
     (''pit_assist'', c_uint8),
     (''pit_release_assist'', c_uint8),
     (''ers_assist'', c_uint8),
     (''drs_assist'', c_uint8),
     (''dynamic_racing_line'', c_uint8),
     (''dynamic_racing_line_type'', c_uint8),
     (''game_mode'', c_uint8),
     (''rule_set'', c_uint8),
     (''time_of_day'', c_uint32),
     (''session_length'', c_uint8),
     (''speed_units_lead_player'', c_uint8),
     (''temperature_units_lead_player'', c_uint8),
     (''speed_units_secondary_player'', c_uint8),
     (''temperature_units_secondary_player'', c_uint8),
     (''num_safety_car_periods'', c_uint8),
     (''num_virtual_safety_car_periods'', c_uint8),
     (''num_red_flag_periods'', c_uint8)]"

definition LapData :: ctype where
  "LapData = Structure ''LapData''
    [(''last_lap_time_in_ms'', c_uint32),
     (''current_lap_time_in_ms'', c_uint32),
     (''sector_1_time_in_ms'', c_uint16),
     (''sector_1_time_minutes'', c_uint8),
     (''sector_2_time_in_ms'', c_uint16),
     (''sector_2_time_minutes'', c_uint8),
     (''delta_to_car_in_front_in_ms'', c_uint16),
     (''delta_to_race_leader_in_ms'', c_uint16),
     (''lap_distance'', c_float),
     (''total_distance'', c_float),
     (''safety_car_delta'', c_float),
     (''car_position'', c_uint8),
     (''current_lap_num'', c_uint8),
     (''pit_status'', c_uint8),
     (''num_pit_stops'', c_uint8),
     (''sector'', c_uint8),
     (''current_lap_invalid'', c_uint8),
     (''penalties'', c_uint8),
     (''total_warnings'', c_uint8),
     (''corner_cutting_warnings'', c_uint8),
     (''num_unserved_drive_through_pens'', c_uint8),
     (''num_unserved_stop_go_pens'', c_uint8),
     (''grid_position'', c_uint8),
     (''driver_status'', c_uint8),
     (''result_status'', c_uint8),
     (''pit_lane_timer_active'', c_uint8),
     (''pit_lane_time_in_lane_in_ms'', c_uint16),
     (''pit_stop_timer_in_ms'', c_uint16),
     (''pit_stop_should_serve_pen'', c_uint8)]"

definition PacketLapData :: ctype where
  "PacketLapData = Structure ''PacketLapData''
    [(''header'', PacketHeader),
     (''lap_data'', Array LapData 22),
     (''time_trial_pb_car_idx'', c_uint8),
     (''time_trial_rival_car_idx'', c_uint8)]"

definition FastestLap :: ctype where
  "FastestLap = Structure ''FastestLap''
    [(''vehicle_idx'', c_uint8),
     (''lap_time'', c_float)]"

definition Retirement :: ctype where
  "Retirement = Structure ''Retirement''
    [(''vehicle_idx'', c_uint8)]"

definition TeamMateInPits :: ctype where
  "TeamMateInPits = Structure ''TeamMateInPits''
    [(''vehicle_idx'', c_uint8)]"

definition RaceWinner :: ctype where
  "RaceWinner = Structure ''RaceWinner''
    [(''vehicle_idx'', c_uint8)]"

definition Penalty :: ctype where
  "Penalty = Structure ''Penalty''
    [(''penalty_type'', c_uint8),
     (''infringement_type'', c_uint8),
     (''vehicle_idx'', c_uint8),
     (''other_vehicle_idx'', c_uint8),
     (''time'', c_uint8),
     (''lap_num'', c_uint8),
     (''places_gained'', c_uint8)]"

definition SpeedTrap :: ctype where
  "SpeedTrap = Structure ''SpeedTrap''
    [(''vehicle_idx'', c_uint8),
     (''speed'', c_float),
     (''overall_fastest_in_session'', c_uint8),
     (''is_driver_fastest_in_session'', c_uint8),
     (''fastest_vehicle_idx_in_sSession'', c_uint8),
     (''fastest_speed_in_session'', c_float)]"

definition StartLights :: ctype where
  "StartLights = Structure ''StartLights''
    [(''num_lights'', c_uint8)]"

definition DriveThroughPenaltyServed :: ctype where
  "DriveThroughPenaltyServed = Structure ''DriveThroughPenaltyServed''
    [(''vehicle_idx'', c_uint8)]"

definition StopGoPenaltyServed :: ctype where
  "StopGoPenaltyServed = Structure ''StopGoPenaltyServed''
    [(''vehicle_idx'', c_uint8)]"

definition Flashback :: ctype where
  "Flashback = Structure ''Flashback''
    [(''flashback_frame_identifier'', c_uint32),
     (''flashback_session_time'', c_float)]"

definition Buttons :: ctype where
  "Buttons = Structure ''Buttons''
    [(''button_status'', c_uint32)]"

definition OverTake :: ctype where
  "OverTake = Structure ''OverTake''
    [(''overtaking_vehicle_idx'', c_uint8),
     (''being_overtaken_vehicle_idx'', c_uint8)]"

definition EventDataDetails :: ctype where
  "EventDataDetails = Union_t ''EventDataDetails''
    [(''fastest_lap'', FastestLap),
     (''retirement'', Retirement),
     (''team_mate_in_pits'', TeamMateInPits),
     (''race_winner'', RaceWinner),
     (''penalty'', Penalty),
     (''speed_trap'', SpeedTrap),
     (''start_lights'', StartLights),
     (''drive_through_penalty_served'', DriveThroughPenaltyServed),
     (''stop_go_penalty_served'', StopGoPenaltyServed),
     (''flashback'', Flashback),
     (''buttons'', Buttons),
     (''overtake'', OverTake)]"

definition PacketEventData :: ctype where
  "PacketEventData = Structure ''PacketEventData''
    [(''header'', PacketHeader),
     (''event_string_code'', Array c_uint8 4),
     (''event_details'', EventDataDetails)]"

definition ParticipantData :: ctype where
  "ParticipantData = Structure ''ParticipantData''
    [(''ai_controlled'', c_uint8),
     (''driver_id'', c_uint8),
     (''network_id'', c_uint8),
     (''team_id'', c_uint8),
     (''my_team'', c_uint8),
     (''race_number'', c_uint8),
     (''nationality'', c_uint8),
     (''name'', Array c_char 48),
     (''your_telemetry'', c_uint8),
     (''show_online_names'', c_uint8),
     (''platform'', c_uint8)]"

definition PacketParticipantsData :: ctype where
  "PacketParticipantsData = Structure ''PacketParticipantsData''
    [(''header'', PacketHeader),
     (''num_active_cars'', c_uint8),
     (''participants'', Array ParticipantData 22)]"

definition CarSetupData :: ctype where
  "CarSetupData = Structure ''CarSetupData''
    [(''front_wing'', c_uint8),
     (''rear_wing'', c_uint8),
     (''on_throttle'', c_uint8),
     (''off_throttle'', c_uint8),
     (''front_camber'', c_float),
     (''rear_camber'', c_float),
     (''front_toe'', c_float),
     (''rear_toe'', c_float),
     (''front_suspension'', c_uint8),
     (''rear_suspension'', c_uint8),
     (''front_anti_roll_bar'', c_uint8),
     (''rear_anti_roll_bar'', c_uint8),
     (''front_suspension_height'', c_uint8),
     (''rear_suspension_height'', c_uint8),
     (''brake_pressure'', c_uint8),
     (''brake_bias'', c_uint8),
     (''rear_left_tyre_pressure'', c_float),
     (''rear_right_tyre_pressure'', c_float),
     (''front_left_tyre_pressure'', c_float),
     (''front_right_tyre_pressure'', c_float),
     (''ballast'', c_uint8),
     (''fuel_load'', c_float)]"

definition PacketCarSetupData :: ctype where
  "PacketCarSetupData = Structure ''PacketCarSetupData''
    [(''header'', PacketHeader),
     (''car_setups'', Array CarSetupData 22)]"

definition CarTelemetryData :: ctype where
  "CarTelemetryData = Structure ''CarTelemetryData''
    [(''speed'', c_uint16),
     (''throttle'', c_float),
     (''steer'', c_float),
     (''brake'', c_float),
     (''clutch'', c_uint8),
     (''gear'', c_int8),
     (''engine_rpm'', c_uint16),
     (''drs'', c_uint8),
     (''rev_lights_percent'', c_uint8),
     (''rev_lights_bit_value'', c_uint16),
     (''brakes_temperature'', Array c_uint16 4),
     (''tyres_surface_temperature'', Array c_uint8 4),
     (''tyres_inner_temperature'', Array c_uint8 4),
     (''engine_temperature'', c_uint16),
     (''tyres_pressure'', Array c_float 4),
     (''surface_type'', Array c_uint8 4)]"

definition PacketCarTelemetryData :: ctype where
  "PacketCarTelemetryData = Structure ''PacketCarTelemetryData''
    [(''header'', PacketHeader),
     (''car_telemetry_data'', Array CarTelemetryData 22),
     (''mfd_panel_index'', c_uint8),
     (''mfd_panel_index_secondary_player'', c_uint8),
     (''suggested_gear'', c_int8)]"

definition CarStatusData :: ctype where
  "CarStatusData = Structure ''CarStatusData''
    [(''traction_control'', c_uint8),
     (''anti_lock_brakes'', c_uint8),
     (''fuel_mix'', c_uint8),
     (''front_brake_bias'', c_uint8),
     (''pit_limiter_status'', c_uint8),
     (''fuel_in_tank'', c_float),
     (''fuel_capacity'', c_float),
     (''fuel_remaining_laps'', c_float),
     (''max_rpm'', c_uint16),
     (''idle_rpm'', c_uint16),
     (''max_gears'', c_uint8),
     (''drs_allowed'', c_uint8),
     (''drs_activation_distance'', c_uint16),
     (''actual_tyre_compound'', c_uint8),
     (''visual_tyre_compound'', c_uint8),
     (''tyres_age_laps'', c_uint8),
     (''vehicle_fia_flags'', c_int8),
     (''engine_power_ice'', c_float),
     (''engine_power_mguk'', c_float),
     (''ers_store_energy'', c_float),
     (''ers_deploy_mode'', c_uint8),
     (''ers_harvested_this_lap_mguk'', c_float),
     (''ers_harvested_this_lap_mguh'', c_float),
     (''ers_deployed_this_lap'', c_float),
     (''network_paused'', c_uint8)]"

definition PacketCarStatusData :: ctype where
  "PacketCarStatusData = Structure ''PacketCarStatusData''
    [(''header'', PacketHeader),
     (''car_status_data'', Array CarStatusData 22)]"

definition FinalClassificationData :: ctype where
  "FinalClassificationData = Structure ''FinalClassificationData''
    [(''position'', c_uint8),
     (''num_laps'', c_uint8),
     (''grid_position'', c_uint8),
     (''points'', c_uint8),
     (''num_pit_stops'', c_uint8),
     (''result_status'', c_uint8),
     (''best_lap_time_in_ms'', c_uint32),
     (''total_race_time'', c_double),
     (''penalties_time'', c_uint8),
     (''num_penalties'', c_uint8),
     (''num_tyre_stints'', c_uint8),
     (''tyre_stints_actual'', Array c_uint8 8),
     (''tyre_stints_visual'', Array c_uint8 8),
     (''tyre_stints_end_laps'', Array c_uint8 8)]"

definition PacketFinalClassificationData :: ctype where
  "PacketFinalClassificationData = Structure ''PacketFinalClassificationData''
    [(''header'', PacketHeader),
     (''num_cars'', c_uint8),
     (''classification_data'', Array FinalClassificationData 22)]"

definition LobbyInfoData :: ctype where
  "LobbyInfoData = Structure ''LobbyInfoData''
    [(''ai_controlled'', c_uint8),
     (''team_id'', c_uint8),
     (''nationality'', c_uint8),
     (''platform'', c_uint8),
     (''name'', Array c_char 48),
     (''car_number'', c_uint8),
     (''ready_status'', c_uint8)]"

definition PacketLobbyInfoData :: ctype where
  "PacketLobbyInfoData = Structure ''PacketLobbyInfoData''
    [(''header'', PacketHeader),
     (''num_players'', c_uint8),
     (''lobby_players'', Array LobbyInfoData 22)]"

definition CarDamageData :: ctype where
  "CarDamageData = Structure ''CarDamageData''
    [(''tyres_wear'', Array c_float 4),
     (''tyres_damage'', Array c_uint8 4),
     (''brakes_damage'', Array c_uint8 4),
     (''front_left_wing_damage'', c_uint8),
     (''front_right_wing_damage'', c_uint8),
     (''rear_wing_damage'', c_uint8),
     (''floor_damage'', c_uint8),
     (''diffuser_damage'', c_uint8),
     (''sidepod_damage'', c_uint8),
     (''drs_fault'', c_uint8),
     (''ers_fault'', c_uint8),
     (''gearbox_damage'', c_uint8),
     (''engined_damage'', c_uint8),
     (''engine_mguh_wear'', c_uint8),
     (''engine_energy_store_wear'', c_uint8),
     (''engine_control_electronics_wear'', c_uint8),
     (''engine_internal_combustion_engine_wear'', c_uint8),
     (''engine_mguk_wear'', c_uint8),
     (''engine_turbo_charger_wear'', c_uint8),
     (''engine_blown'', c_uint8),
     (''engine_seized'', c_uint8)]"

definition PacketCarDamageData :: ctype where
  "PacketCarDamageData = Structure ''PacketCarDamageData''
    [(''header'', PacketHeader),
     (''car_damage_data'', Array CarDamageData 22)]"

definition LapHistoryData :: ctype where
  "LapHistoryData = Structure ''LapHistoryData''
    [(''lap_time_in_ms'', c_uint32),
     (''sector1_time_in_ms'', c_uint16),
     (''sector1_time_minutes'', c_uint8),
     (''sector2_time_in_ms'', c_uint16),
     (''sector2_time_minutes'', c_uint8),
     (''sector3_time_in_ms'', c_uint16),
     (''sector1_time_minutes'', c_uint8),
     (''lap_valid_bit_flags'', c_uint8)]"

definition TyreStintHistoryData :: ctype where
  "TyreStintHistoryData = Structure ''TyreStintHistoryData''
    [(''end_lap'', c_uint8),
     (''tyre_actual_compound'', c_uint8),
     (''tyre_visual_compound'', c_uint8)]"

definition PacketSessionHistoryData :: ctype where
  "PacketSessionHistoryData = Structure ''PacketSessionHistoryData''
    [(''header'', PacketHeader),
     (''car_idx'', c_uint8),
     (''num_laps'', c_uint8),
     (''num_tyre_stints'', c_uint8),
     (''best_lap_time_lap_num'', c_uint8),
     (''best_sector1_lap_num'', c_uint8),
     (''best_sector2_lap_num'', c_uint8),
     (''best_sector3_lap_num'', c_uint8),
     (''lap_history_data'', Array LapHistoryData 100),
     (''tyre_stints_history_data'', Array TyreStintHistoryData 8)]"

definition TyreSetData :: ctype where
  "TyreSetData = Structure ''TyreSetData''
    [(''actual_tyre_compound'', c_uint8),
     (''visual_tyre_compound'', c_uint8),
     (''wear'', c_uint8),
     (''available'', c_uint8),
     (''recommended_session'', c_uint8),
     (''life_span'', c_uint8),
     (''usable_life'', c_uint8),
     (''lap_delta_time'', c_uint16),
     (''fitted'', c_uint8)]"

definition PacketTyreSetsData :: ctype where
  "PacketTyreSetsData = Structure ''PacketTyreSetsData''
    [(''header'', PacketHeader),
     (''car_idx'', c_uint8),
     (''tyre_set_data'', Array TyreSetData 20),
     (''fitted_idx'', c_uint8)]"

definition PacketMotionExData :: ctype where
  "PacketMotionExData = Structure ''PacketMotionExData''
    [(''header'', PacketHeader),
     (''m_suspensionPosition'', Array c_float 4),
     (''m_suspensionVelocity'', Array c_float 4),
     (''m_suspensionAcceleration'', Array c_float 4),
     (''m_wheelSpeed'', Array c_float 4),
     (''m_wheelSlipRatio'', Array c_float 4),
     (''m_wheelSlipAngle'', Array c_float 4),
     (''m_wheelLatForce'', Array c_float 4),
     (''m_wheelLongForce'', Array c_float 4),
     (''m_heightOfCOGAboveGround'', c_float),
     (''m_localVelocityX'', c_float),
     (''m_localVelocityY'', c_float),
     (''m_localVelocityZ'', c_float),
     (''m_angularVelocityX'', c_float),
     (''m_angularVelocityY'', c_float),
     (''m_angularVelocityZ'', c_float),
     (''m_angularAccelerationX'', c_float),
     (''m_angularAccelerationY'', c_float),
     (''m_angularAccelerationZ'', c_float),
     (''m_frontWheelsAngle'', c_float),
     (''m_wheelVertForce'', c_float)]"

text \<open>The dispatch table, keyed by \<open>(packet_format, packet_version, packet_id)\<close>.\<close>

definition HEADER_FIELD_TO_PACKET_TYPE :: "((int \<times> int \<times> int) \<times> ctype) list" where
  "HEADER_FIELD_TO_PACKET_TYPE =
    [((2023, 1, 0), PacketMotionData),
     ((2023, 1, 1), PacketSessionData),
     ((2023, 1, 2), PacketLapData),
     ((2023, 1, 3), PacketEventData),
     ((2023, 1, 4), PacketParticipantsData),
     ((2023, 1, 5), PacketCarSetupData),
     ((2023, 1, 6), PacketCarTelemetryData),
     ((2023, 1, 7), PacketCarStatusData),
     ((2023, 1, 8), PacketFinalClassificationData),
     ((2023, 1, 9), PacketLobbyInfoData),
     ((2023, 1, 10), PacketCarDamageData),
     ((2023, 1, 11), PacketSessionHistoryData),
     ((2023, 1, 12), PacketTyreSetsData),
     ((2023, 1, 13), PacketMotionExData)]"

section \<open>Python values\<close>

text \<open>
  A Python \<open>float\<close> is an IEEE 754 binary64 number. A finite one is modelled by the
  real number it denotes, with the negative zero, the infinities (\<open>True\<close> for the
  negative one) and NaN apart.
\<close>

datatype pyfloat = Finite real | NegZero | Infinity bool | NaN

text \<open>
  The values the code handles: \<open>int\<close>, \<open>float\<close>, \<open>bytes\<close>, \<open>str\<close> (a list of code
  points), \<open>list\<close>, \<open>dict\<close> (with string keys, in insertion order) and the instances of
  ctypes classes. An instance \<open>CData cls b\<close> is its class and the bytes of its buffer.
\<close>

datatype pyval =
    PInt int
  | PFloat pyfloat
  | PBytes "byte list"
  | PStr "nat list"
  | PList "pyval list"
  | PDict "(string \<times> pyval) list"
  | CData ctype "byte list"

text \<open>
  The exceptions: \<open>ValueError actual expected\<close> is raised by \<open>from_buffer_copy\<close>
  ("Buffer size too small (\<open>actual\<close> instead of at least \<open>expected\<close> bytes)"),
  \<open>KeyError\<close> by the lookup in the dispatch table, \<open>UnicodeDecodeError\<close> by
  \<open>bytes.decode\<close>, \<open>AttributeError\<close> by an attribute a value does not have.
\<close>

datatype error =
    ValueError nat nat
  | KeyError "int \<times> int \<times> int"
  | UnicodeDecodeError
  | AttributeError string

section \<open>Reading simple values\<close>

text \<open>Integers are little-endian: \<open>le_int\<close> is the unsigned value of a byte string.\<close>

definition le_int :: "byte list \<Rightarrow> int" where
  "le_int bs = horner_sum uint 256 bs"

definition le_word :: "byte list \<Rightarrow> 'a::len word" where
  "le_word bs = word_of_int (le_int bs)"

definition pow2 :: "int \<Rightarrow> real" where
  "pow2 k = (if 0 \<le> k then 2 ^ nat k else 1 / 2 ^ nat (- k))"

text \<open>
  The value of an IEEE 754 bit pattern \<open>n\<close> with \<open>ew\<close> exponent bits and \<open>mw\<close> fraction
  bits (8 and 23 for \<open>c_float\<close>, 11 and 52 for \<open>c_double\<close>). The conversion of a
  \<open>c_float\<close> to a Python \<open>float\<close> is exact.
\<close>

definition ieee_value :: "nat \<Rightarrow> nat \<Rightarrow> int \<Rightarrow> pyfloat" where
  "ieee_value ew mw n =
    (let s = ((n div 2 ^ (ew + mw)) mod 2 = 1);
         e = (n div 2 ^ mw) mod 2 ^ ew;
         m = n mod 2 ^ mw;
         bias = 2 ^ (ew - 1) - 1
     in if e = 2 ^ ew - 1 then (if m = 0 then Infinity s else NaN)
        else if e = 0 \<and> m = 0 then (if s then NegZero else Finite 0)
        else let mag = (if e = 0 then of_int m * pow2 (1 - bias - int mw)
                        else of_int (2 ^ mw + m) * pow2 (e - bias - int mw))
             in Finite (if s then - mag else mag))"

text \<open>
  The getter of a simple type, applied to the bytes of the field. A \<open>c_char\<close> is read
  as a \<open>bytes\<close> object of length 1.
\<close>

fun getfunc :: "ctype \<Rightarrow> byte list \<Rightarrow> pyval option" where
  "getfunc c_uint8 bs = Some (PInt (uint (le_word bs :: 8 word)))"
| "getfunc c_int8 bs = Some (PInt (sint (le_word bs :: 8 word)))"
| "getfunc c_uint16 bs = Some (PInt (uint (le_word bs :: 16 word)))"
| "getfunc c_int16 bs = Some (PInt (sint (le_word bs :: 16 word)))"
| "getfunc c_uint32 bs = Some (PInt (uint (le_word bs :: 32 word)))"
| "getfunc c_uint64 bs = Some (PInt (uint (le_word bs :: 64 word)))"
| "getfunc c_float bs = Some (PFloat (ieee_value 8 23 (le_int bs)))"
| "getfunc c_double bs = Some (PFloat (ieee_value 11 52 (le_int bs)))"
| "getfunc c_char bs = Some (PBytes bs)"
| "getfunc (Array t n) bs = None"
| "getfunc (Structure nm fs) bs = None"
| "getfunc (Union_t nm fs) bs = None"

text \<open>
  An element of an array: the Python value for a simple type, an instance that views
  the element's bytes otherwise.
\<close>

definition item_get :: "ctype \<Rightarrow> byte list \<Rightarrow> pyval" where
  "item_get t bs = (case getfunc t bs of Some v \<Rightarrow> v | None \<Rightarrow> CData t bs)"

text \<open>
  A field of a structure or union is read like an array element, except that a field
  of type \<open>c_char * n\<close> is read as \<open>bytes\<close> up to (not including) its first null byte.
\<close>

fun field_get :: "ctype \<Rightarrow> byte list \<Rightarrow> pyval" where
  "field_get (Array c_char n) bs = PBytes (takeWhile (\<lambda>b. b \<noteq> 0) bs)"
| "field_get t bs = item_get t bs"

section \<open>Instances: \<open>unpack\<close>, \<open>pack\<close>, attribute access\<close>

text \<open>
  \<open>cls.from_buffer_copy(buffer)\<close> raises \<open>ValueError\<close> when the buffer is shorter than
  the class; otherwise the instance holds a copy of the first \<open>sizeof(cls)\<close> bytes.
\<close>

definition from_buffer_copy :: "ctype \<Rightarrow> byte list \<Rightarrow> error + pyval" where
  "from_buffer_copy cls buffer =
    (if length buffer < sizeof cls then Inl (ValueError (length buffer) (sizeof cls))
     else Inr (CData cls (take (sizeof cls) buffer)))"

text \<open>\<open>PacketMixin.unpack\<close>, \<open>PacketMixin.size\<close> and \<open>PacketMixin.pack\<close>.\<close>

definition unpack :: "ctype \<Rightarrow> byte list \<Rightarrow> error + pyval" where
  "unpack cls buffer = from_buffer_copy cls buffer"

definition size_cls :: "ctype \<Rightarrow> nat" where
  "size_cls cls = sizeof cls"

fun pack :: "pyval \<Rightarrow> error + byte list" where
  "pack (CData cls b) = Inr b"
| "pack v = Inl (AttributeError ''pack'')"

text \<open>\<open>cls()\<close>: a new instance, its buffer filled with zero bytes.\<close>

definition new :: "ctype \<Rightarrow> pyval" where
  "new cls = CData cls (replicate (sizeof cls) 0)"

text \<open>
  The field descriptors of a class: for each entry of \<open>_fields_\<close> its name, offset and
  type. The fields of a structure follow each other; the members of a union are all
  at offset 0.
\<close>

fun field_offsets :: "nat \<Rightarrow> (string \<times> ctype) list \<Rightarrow> (string \<times> nat \<times> ctype) list" where
  "field_offsets off [] = []"
| "field_offsets off (f # fs) = (fst f, off, snd f) # field_offsets (off + sizeof (snd f)) fs"

fun fields_of :: "ctype \<Rightarrow> (string \<times> ctype) list" where
  "fields_of (Structure nm fs) = fs"
| "fields_of (Union_t nm fs) = fs"
| "fields_of t = []"

fun descriptors :: "ctype \<Rightarrow> (string \<times> nat \<times> ctype) list" where
  "descriptors (Structure nm fs) = field_offsets 0 fs"
| "descriptors (Union_t nm fs) = map (\<lambda>f. (fst f, 0, snd f)) fs"
| "descriptors t = []"

text \<open>
  ctypes sets one class attribute per entry of \<open>_fields_\<close>, in order: where two
  entries have the same name, the attribute is the descriptor of the later one.
\<close>

definition descriptor :: "ctype \<Rightarrow> string \<Rightarrow> (nat \<times> ctype) option" where
  "descriptor cls name = map_of (rev (descriptors cls)) name"

fun getattr :: "pyval \<Rightarrow> string \<Rightarrow> error + pyval" where
  "getattr (CData cls b) name =
    (case descriptor cls name of
       None \<Rightarrow> Inl (AttributeError name)
     | Some (off, t) \<Rightarrow> Inr (field_get t (take (sizeof t) (drop off b))))"
| "getattr v name = Inl (AttributeError name)"

text \<open>Iterating over an array instance yields its \<open>n\<close> elements in index order.\<close>

definition array_items :: "ctype \<Rightarrow> nat \<Rightarrow> byte list \<Rightarrow> pyval list" where
  "array_items t n b = map (\<lambda>i. item_get t (take (sizeof t) (drop (i * sizeof t) b))) [0..<n]"

section \<open>The listener\<close>

text \<open>
  \<open>TelemetryListener.get\<close>, as a function of the datagram \<open>packet\<close> that
  \<open>socket.recv\<close> returned: the header is read from the packet, its three fields form
  the key, and the class found under the key unpacks the packet.
\<close>

definition header_key :: "pyval \<Rightarrow> error + (int \<times> int \<times> int)" where
  "header_key header =
    (case getattr header ''packet_format'' of
       Inr (PInt f) \<Rightarrow>
        (case getattr header ''packet_version'' of
           Inr (PInt v) \<Rightarrow>
            (case getattr header ''packet_id'' of
               Inr (PInt i) \<Rightarrow> Inr (f, v, i)
             | _ \<Rightarrow> Inl (AttributeError ''packet_id''))
         | _ \<Rightarrow> Inl (AttributeError ''packet_version''))
     | _ \<Rightarrow> Inl (AttributeError ''packet_format''))"

definition TelemetryListener_get :: "byte list \<Rightarrow> error + pyval" where
  "TelemetryListener_get packet =
    (case from_buffer_copy PacketHeader packet of
       Inl e \<Rightarrow> Inl e
     | Inr header \<Rightarrow>
        (case header_key header of
           Inl e \<Rightarrow> Inl e
         | Inr key \<Rightarrow>
            (case map_of HEADER_FIELD_TO_PACKET_TYPE key of
               None \<Rightarrow> Inl (KeyError key)
             | Some cls \<Rightarrow> unpack cls packet)))"

text \<open>
  The dispatch key as it stands in the bytes of a packet of at least 29 bytes:
  \<open>packet_format\<close> is the signed 16-bit integer at offset 0, \<open>packet_version\<close> the
  byte at offset 5 and \<open>packet_id\<close> the byte at offset 6 (\<open>header_key_bytes\<close> below).
\<close>

definition packet_key :: "byte list \<Rightarrow> int \<times> int \<times> int" where
  "packet_key packet =
    (sint (le_word (take 2 packet) :: 16 word), uint (packet ! 5), uint (packet ! 6))"


section \<open>Canonicalization: \<open>to_dict\<close>\<close>

subsection \<open>Python's \<open>round(x, ndigits)\<close> on floats\<close>

text \<open>
  For a finite float and a small positive \<open>ndigits\<close>, \<open>round\<close> converts the exact
  value of the float to the nearest decimal with \<open>ndigits\<close> digits after the point
  (ties go to the even last digit) and returns the float nearest to this decimal.
  A result of zero keeps the sign of the argument; NaN and the infinities are returned
  as they are.
\<close>

definition round_half_even :: "real \<Rightarrow> int" where
  "round_half_even q =
    (let f = \<lfloor>q\<rfloor>; r = q - of_int f
     in if r < 1 / 2 then f else if 1 / 2 < r then f + 1 else if even f then f else f + 1)"

text \<open>
  \<open>double_of_rat d\<close> is the binary64 number nearest to \<open>d\<close> (ties to the even
  significand): \<open>d\<close> is rounded to a multiple of \<open>2 ^ qe\<close>, where \<open>qe\<close> is the exponent of
  the last significand bit, 52 below the exponent of \<open>d\<close> and at least \<open>- 1074\<close>.
\<close>

fun bit_length :: "nat \<Rightarrow> nat" where
  "bit_length n = (if n = 0 then 0 else Suc (bit_length (n div 2)))"

declare bit_length.simps [simp del]

definition floor_log2 :: "real \<Rightarrow> int" where
  "floor_log2 a =
    (if 1 \<le> a then int (bit_length (nat \<lfloor>a\<rfloor>)) - 1
     else - int (bit_length (nat (\<lceil>1 / a\<rceil> - 1))))"

definition double_of_rat :: "real \<Rightarrow> real" where
  "double_of_rat d =
    (if d = 0 then 0
     else let a = \<bar>d\<bar>;
              qe = max (floor_log2 a - 52) (- 1074)
          in sgn d * of_int (round_half_even (a / pow2 qe)) * pow2 qe)"

definition round_decimal :: "real \<Rightarrow> nat \<Rightarrow> real" where
  "round_decimal q ndigits = of_int (round_half_even (q * 10 ^ ndigits)) / 10 ^ ndigits"

fun py_round :: "pyfloat \<Rightarrow> nat \<Rightarrow> pyfloat" where
  "py_round (Finite q) ndigits =
    (let d = round_decimal q ndigits
     in if d = 0 then (if q < 0 then NegZero else Finite 0) else Finite (double_of_rat d))"
| "py_round x ndigits = x"

subsection \<open>\<open>bytes.decode()\<close>: strict UTF-8\<close>

text \<open>
  \<open>value.decode()\<close> decodes UTF-8 with the error handler \<open>strict\<close>: it accepts the
  well-formed byte sequences of the Unicode standard (no overlong form, no surrogate,
  nothing above U+10FFFF) and raises \<open>UnicodeDecodeError\<close> on anything else. The
  result is the list of code points.
\<close>

definition cont :: "byte \<Rightarrow> bool" where
  "cont b = (0x80 \<le> b \<and> b \<le> 0xBF)"

fun utf8_decode :: "byte list \<Rightarrow> nat list option" where
  "utf8_decode [] = Some []"
| "utf8_decode (b0 # bs) =
    (if b0 < 0x80 then map_option ((#) (unat b0)) (utf8_decode bs)
     else if 0xC2 \<le> b0 \<and> b0 \<le> 0xDF then
       (case bs of
          b1 # r \<Rightarrow>
            if cont b1
            then map_option ((#) ((unat b0 - 0xC0) * 64 + (unat b1 - 0x80))) (utf8_decode r)
            else None
        | _ \<Rightarrow> None)
     else if 0xE0 \<le> b0 \<and> b0 \<le> 0xEF then
       (case bs of
          b1 # b2 # r \<Rightarrow>
            if (if b0 = 0xE0 then 0xA0 \<le> b1 \<and> b1 \<le> 0xBF
                else if b0 = 0xED then 0x80 \<le> b1 \<and> b1 \<le> 0x9F
                else cont b1) \<and> cont b2
            then map_option
                   ((#) ((unat b0 - 0xE0) * 4096 + (unat b1 - 0x80) * 64 + (unat b2 - 0x80)))
                   (utf8_decode r)
            else None
        | _ \<Rightarrow> None)
     else if 0xF0 \<le> b0 \<and> b0 \<le> 0xF4 then
       (case bs of
          b1 # b2 # b3 # r \<Rightarrow>
            if (if b0 = 0xF0 then 0x90 \<le> b1 \<and> b1 \<le> 0xBF
                else if b0 = 0xF4 then 0x80 \<le> b1 \<and> b1 \<le> 0x8F
                else cont b1) \<and> cont b2 \<and> cont b3
            then map_option
                   ((#) ((unat b0 - 0xF0) * 262144 + (unat b1 - 0x80) * 4096
                         + (unat b2 - 0x80) * 64 + (unat b3 - 0x80)))
                   (utf8_decode r)
            else None
        | _ \<Rightarrow> None)
     else None)"

definition bytes_decode :: "byte list \<Rightarrow> error + pyval" where
  "bytes_decode b = (case utf8_decode b of None \<Rightarrow> Inl UnicodeDecodeError | Some s \<Rightarrow> Inr (PStr s))"

text \<open>
  UTF-8 as the Unicode standard defines it, for comparison with \<open>utf8_decode\<close>: a
  code point is valid when it is at most U+10FFFF and no surrogate, and it is encoded
  in one to four bytes (what \<open>str.encode()\<close> produces). \<open>utf8_decode_iff\<close> below
  shows that \<open>utf8_decode\<close> accepts exactly the encodings of valid strings and
  returns the string encoded.
\<close>

definition valid_code_point :: "nat \<Rightarrow> bool" where
  "valid_code_point c = (c < 0x110000 \<and> \<not> (0xD800 \<le> c \<and> c \<le> 0xDFFF))"

definition utf8_encode_char :: "nat \<Rightarrow> byte list" where
  "utf8_encode_char c =
    (if c < 0x80 then [of_nat c]
     else if c < 0x800 then [of_nat (0xC0 + c div 64), of_nat (0x80 + c mod 64)]
     else if c < 0x10000 then
       [of_nat (0xE0 + c div 4096), of_nat (0x80 + c div 64 mod 64), of_nat (0x80 + c mod 64)]
     else
       [of_nat (0xF0 + c div 262144), of_nat (0x80 + c div 4096 mod 64),
        of_nat (0x80 + c div 64 mod 64), of_nat (0x80 + c mod 64)])"

definition utf8_encode :: "nat list \<Rightarrow> byte list" where
  "utf8_encode s = concat (map utf8_encode_char s)"

subsection \<open>\<open>PacketMixin\<close>: \<open>get_value\<close>, \<open>to_dict\<close>, \<open>_format_type\<close>\<close>

text \<open>\<open>d[k] = v\<close>: a key that is present keeps its place and takes the new value.\<close>

fun dict_set :: "(string \<times> pyval) list \<Rightarrow> string \<Rightarrow> pyval \<Rightarrow> (string \<times> pyval) list" where
  "dict_set [] k v = [(k, v)]"
| "dict_set (e # d) k v = (if fst e = k then (k, v) # d else e # dict_set d k v)"

text \<open>
  The functions below call each other through the fields of a record. They terminate
  because a field's type is smaller than the record's type; \<open>tsize\<close> measures it.
\<close>

fun tsize :: "ctype \<Rightarrow> nat" and tsize_fields :: "(string \<times> ctype) list \<Rightarrow> nat" where
  "tsize (Array t n) = Suc (n * Suc (tsize t))"
| "tsize (Structure nm fs) = Suc (tsize_fields fs)"
| "tsize (Union_t nm fs) = Suc (tsize_fields fs)"
| "tsize c_uint8 = 0" | "tsize c_int8 = 0" | "tsize c_uint16 = 0" | "tsize c_int16 = 0"
| "tsize c_uint32 = 0" | "tsize c_uint64 = 0" | "tsize c_float = 0" | "tsize c_double = 0"
| "tsize c_char = 0"
| "tsize_fields [] = 0"
| "tsize_fields (f # fs) = Suc (tsize (snd f) + tsize_fields fs)"

fun vsize :: "pyval \<Rightarrow> nat" where
  "vsize (CData t b) = tsize t"
| "vsize v = 0"


fun items_size :: "pyval list \<Rightarrow> nat" where
  "items_size [] = 0"
| "items_size (item # rest) = Suc (vsize item + items_size rest)"

fun fields_of_val :: "pyval \<Rightarrow> (string \<times> ctype) list" where
  "fields_of_val (CData cls b) = fields_of cls"
| "fields_of_val v = []"

lemma vsize_item_get: "vsize (item_get t bs) \<le> tsize t"
  by (cases t) (simp_all add: item_get_def)

lemma vsize_field_get: "vsize (field_get t bs) \<le> tsize t"
  by (induction t bs rule: field_get.induct) (simp_all add: item_get_def)

lemma items_size_map:
  "items_size (map (\<lambda>i. item_get t (f i)) xs) \<le> length xs * Suc (tsize t)"
proof (induction xs)
  case Nil
  then show ?case by simp
next
  case (Cons x xs)
  have "vsize (item_get t (f x)) \<le> tsize t" by (rule vsize_item_get)
  with Cons show ?case by simp
qed

lemma items_size_array_items: "items_size (array_items t n b) < tsize (Array t n)"
  using items_size_map [of t _ "[0..<n]"] by (simp add: array_items_def less_Suc_eq_le)

lemma tsize_fields_mem: "(k, t) \<in> set fs \<Longrightarrow> tsize t < tsize_fields fs"
  by (induction fs) auto

lemma field_offsets_mem: "(k, off, t) \<in> set (field_offsets o' fs) \<Longrightarrow> (k, t) \<in> set fs"
  by (induction fs arbitrary: o') auto

lemma descriptors_mem: "(k, off, t) \<in> set (descriptors cls) \<Longrightarrow> (k, t) \<in> set (fields_of cls)"
  by (cases cls) (auto dest: field_offsets_mem)

lemma tsize_fields_of: "(k, t) \<in> set (fields_of cls) \<Longrightarrow> tsize t < tsize cls"
  by (cases cls) (auto dest: tsize_fields_mem)

lemma descriptor_tsize: "descriptor cls name = Some (off, t) \<Longrightarrow> tsize t < tsize cls"
proof -
  assume "descriptor cls name = Some (off, t)"
  then have "(name, off, t) \<in> set (descriptors cls)"
    unfolding descriptor_def by (auto dest: map_of_SomeD)
  then show ?thesis by (blast dest: descriptors_mem tsize_fields_of)
qed

lemma getattr_vsize: "getattr self field = Inr v \<Longrightarrow> vsize v < vsize self"
proof (cases self)
  case (CData cls b)
  assume "getattr self field = Inr v"
  with CData obtain off t where d: "descriptor cls field = Some (off, t)"
    and v: "v = field_get t (take (sizeof t) (drop off b))"
    by (auto split: option.splits)
  have "vsize v \<le> tsize t" unfolding v by (rule vsize_field_get)
  also have "\<dots> < tsize cls" using d by (rule descriptor_tsize)
  finally show ?thesis using CData by simp
qed simp_all

text \<open>
  \<open>_format_type\<close>, \<open>_format_array_type\<close>, \<open>to_dict\<close> and \<open>get_value\<close>.
  \<open>to_dict_items self ks d\<close> is the dictionary comprehension of \<open>to_dict\<close> over the
  remaining field names \<open>ks\<close>, with \<open>d\<close> the entries made so far. Every class of
  \<open>packets.py\<close> mixes in \<open>PacketMixin\<close>, so every structure and every union has
  \<open>to_dict\<close>; \<open>isinstance(item, Packet)\<close> holds for the structures only.
\<close>

function format_type :: "pyval \<Rightarrow> error + pyval"
  and format_array_type :: "pyval list \<Rightarrow> error + pyval list"
  and to_dict :: "pyval \<Rightarrow> error + pyval"
  and to_dict_items :: "pyval \<Rightarrow> string list \<Rightarrow> (string \<times> pyval) list \<Rightarrow> error + (string \<times> pyval) list"
  and get_value :: "pyval \<Rightarrow> string \<Rightarrow> error + pyval"
where
  "format_type value =
    (case value of
       PFloat x \<Rightarrow> Inr (PFloat (py_round x 3))
     | PBytes b \<Rightarrow> bytes_decode b
     | CData (Array t n) b \<Rightarrow>
         (case format_array_type (array_items t n b) of
            Inl e \<Rightarrow> Inl e
          | Inr results \<Rightarrow> Inr (PList results))
     | CData (Structure nm fs) b \<Rightarrow> to_dict value
     | CData (Union_t nm fs) b \<Rightarrow> to_dict value
     | _ \<Rightarrow> Inr value)"
| "format_array_type [] = Inr []"
| "format_array_type (item # rest) =
    (case item of
       CData (Structure nm fs) b \<Rightarrow>
         (case to_dict item of
            Inl e \<Rightarrow> Inl e
          | Inr d \<Rightarrow>
             (case format_array_type rest of Inl e \<Rightarrow> Inl e | Inr results \<Rightarrow> Inr (d # results)))
     | _ \<Rightarrow>
         (case format_array_type rest of Inl e \<Rightarrow> Inl e | Inr results \<Rightarrow> Inr (item # results)))"
| "to_dict self =
    (case self of
       CData cls b \<Rightarrow>
         (case to_dict_items self (map fst (fields_of cls)) [] of
            Inl e \<Rightarrow> Inl e
          | Inr d \<Rightarrow> Inr (PDict d))
     | _ \<Rightarrow> Inl (AttributeError ''to_dict''))"
| "to_dict_items self [] d = Inr d"
| "to_dict_items self (k # ks) d =
    (case get_value self k of
       Inl e \<Rightarrow> Inl e
     | Inr v \<Rightarrow> to_dict_items self ks (dict_set d k v))"
| "get_value self field =
    (case getattr self field of
       Inl e \<Rightarrow> Inl e
     | Inr v \<Rightarrow> format_type v)"
  by pat_completeness auto

termination
  apply (relation "inv_image (less_than <*lex*> less_than)
    (\<lambda>x. case x of
       Inl (Inl v) \<Rightarrow> (vsize v, 3 + length (fields_of_val v))
     | Inl (Inr items) \<Rightarrow> (items_size items, 0)
     | Inr (Inl self) \<Rightarrow> (vsize self, 2 + length (fields_of_val self))
     | Inr (Inr (Inl (self, ks, d))) \<Rightarrow> (vsize self, 1 + length ks)
     | Inr (Inr (Inr (self, field))) \<Rightarrow> (vsize self, 0))")
  subgoal by (intro wf_inv_image wf_lex_prod wf_less_than)
  using items_size_array_items apply (simp_all add: getattr_vsize)
  done

text \<open>\<open>r[k]\<close> for the dictionary \<open>r\<close> that \<open>to_dict\<close> returned.\<close>

definition dict_item :: "error + pyval \<Rightarrow> string \<Rightarrow> pyval option" where
  "dict_item r k = (case r of Inr (PDict d) \<Rightarrow> map_of d k | _ \<Rightarrow> None)"

text \<open>
  The event codes, as the table in the docstring of \<open>PacketEventData\<close> lists them.
  No code of \<open>packets.py\<close> refers to them.
\<close>

definition EVENT_CODES :: "string list" where
  "EVENT_CODES =
    [''SSTA'', ''SEND'', ''FTLP'', ''RTMT'', ''DRSE'', ''DRSD'', ''TMPT'', ''CHQF'', ''RCWN'',
     ''PENA'', ''SPTP'', ''STLG'', ''LGOT'', ''DTSV'', ''SGSV'', ''FLBK'', ''BUTN'', ''RDFL'',
     ''OVTK'']"

text \<open>
  An instance is well sized when its buffer has exactly the size of its class, as the
  buffer of every ctypes instance has.
\<close>

fun well_sized :: "pyval \<Rightarrow> bool" where
  "well_sized (CData t b) = (length b = sizeof t)"
| "well_sized v = True"

section \<open>Sizes of the classes\<close>

lemma sizeof_PacketHeader: "sizeof PacketHeader = 29"
  by (simp add: PacketHeader_def)

lemma sizeof_CarMotionData: "sizeof CarMotionData = 60"
  by (simp add: CarMotionData_def)

lemma sizeof_PacketMotionData: "sizeof PacketMotionData = 1349"
  by (simp add: PacketMotionData_def sizeof_PacketHeader sizeof_CarMotionData)

lemma sizeof_MarshalZone: "sizeof MarshalZone = 5"
  by (simp add: MarshalZone_def)

lemma sizeof_WeatherForecastSample: "sizeof WeatherForecastSample = 8"
  by (simp add: WeatherForecastSample_def)

lemma sizeof_PacketSessionData: "sizeof PacketSessionData = 644"
  by (simp add: PacketSessionData_def sizeof_PacketHeader sizeof_MarshalZone sizeof_WeatherForecastSample)

lemma sizeof_LapData: "sizeof LapData = 50"
  by (simp add: LapData_def)

lemma sizeof_PacketLapData: "sizeof PacketLapData = 1131"
  by (simp add: PacketLapData_def sizeof_PacketHeader sizeof_LapData)

lemma sizeof_FastestLap: "sizeof FastestLap = 5"
  by (simp add: FastestLap_def)

lemma sizeof_Retirement: "sizeof Retirement = 1"
  by (simp add: Retirement_def)

lemma sizeof_TeamMateInPits: "sizeof TeamMateInPits = 1"
  by (simp add: TeamMateInPits_def)

lemma sizeof_RaceWinner: "sizeof RaceWinner = 1"
  by (simp add: RaceWinner_def)

lemma sizeof_Penalty: "sizeof Penalty = 7"
  by (simp add: Penalty_def)

lemma sizeof_SpeedTrap: "sizeof SpeedTrap = 12"
  by (simp add: SpeedTrap_def)

lemma sizeof_StartLights: "sizeof StartLights = 1"
  by (simp add: StartLights_def)

lemma sizeof_DriveThroughPenaltyServed: "sizeof DriveThroughPenaltyServed = 1"
  by (simp add: DriveThroughPenaltyServed_def)

lemma sizeof_StopGoPenaltyServed: "sizeof StopGoPenaltyServed = 1"
  by (simp add: StopGoPenaltyServed_def)

lemma sizeof_Flashback: "sizeof Flashback = 8"
  by (simp add: Flashback_def)

lemma sizeof_Buttons: "sizeof Buttons = 4"
  by (simp add: Buttons_def)

lemma sizeof_OverTake: "sizeof OverTake = 2"
  by (simp add: OverTake_def)

lemmas event_member_defs =
  FastestLap_def Retirement_def TeamMateInPits_def RaceWinner_def Penalty_def SpeedTrap_def
  StartLights_def DriveThroughPenaltyServed_def StopGoPenaltyServed_def Flashback_def
  Buttons_def OverTake_def

lemma sizeof_EventDataDetails: "sizeof EventDataDetails = 12"
  by (simp add: EventDataDetails_def round_up_def event_member_defs)

lemma sizeof_PacketEventData: "sizeof PacketEventData = 45"
  by (simp add: PacketEventData_def sizeof_PacketHeader sizeof_EventDataDetails)

lemma sizeof_ParticipantData: "sizeof ParticipantData = 58"
  by (simp add: ParticipantData_def)

lemma sizeof_PacketParticipantsData: "sizeof PacketParticipantsData = 1306"
  by (simp add: PacketParticipantsData_def sizeof_PacketHeader sizeof_ParticipantData)

lemma sizeof_CarSetupData: "sizeof CarSetupData = 49"
  by (simp add: CarSetupData_def)

lemma sizeof_PacketCarSetupData: "sizeof PacketCarSetupData = 1107"
  by (simp add: PacketCarSetupData_def sizeof_PacketHeader sizeof_CarSetupData)

lemma sizeof_CarTelemetryData: "sizeof CarTelemetryData = 60"
  by (simp add: CarTelemetryData_def)

lemma sizeof_PacketCarTelemetryData: "sizeof PacketCarTelemetryData = 1352"
  by (simp add: PacketCarTelemetryData_def sizeof_PacketHeader sizeof_CarTelemetryData)

lemma sizeof_CarStatusData: "sizeof CarStatusData = 55"
  by (simp add: CarStatusData_def)

lemma sizeof_PacketCarStatusData: "sizeof PacketCarStatusData = 1239"
  by (simp add: PacketCarStatusData_def sizeof_PacketHeader sizeof_CarStatusData)

lemma sizeof_FinalClassificationData: "sizeof FinalClassificationData = 45"
  by (simp add: FinalClassificationData_def)

lemma sizeof_PacketFinalClassificationData: "sizeof PacketFinalClassificationData = 1020"
  by (simp add: PacketFinalClassificationData_def sizeof_PacketHeader sizeof_FinalClassificationData)

lemma sizeof_LobbyInfoData: "sizeof LobbyInfoData = 54"
  by (simp add: LobbyInfoData_def)

lemma sizeof_PacketLobbyInfoData: "sizeof PacketLobbyInfoData = 1218"
  by (simp add: PacketLobbyInfoData_def sizeof_PacketHeader sizeof_LobbyInfoData)

lemma sizeof_CarDamageData: "sizeof CarDamageData = 42"
  by (simp add: CarDamageData_def)

lemma sizeof_PacketCarDamageData: "sizeof PacketCarDamageData = 953"
  by (simp add: PacketCarDamageData_def sizeof_PacketHeader sizeof_CarDamageData)

lemma sizeof_LapHistoryData: "sizeof LapHistoryData = 14"
  by (simp add: LapHistoryData_def)

lemma sizeof_TyreStintHistoryData: "sizeof TyreStintHistoryData = 3"
  by (simp add: TyreStintHistoryData_def)

lemma sizeof_PacketSessionHistoryData: "sizeof PacketSessionHistoryData = 1460"
  by (simp add: PacketSessionHistoryData_def sizeof_PacketHeader sizeof_LapHistoryData sizeof_TyreStintHistoryData)

lemma sizeof_TyreSetData: "sizeof TyreSetData = 10"
  by (simp add: TyreSetData_def)

lemma sizeof_PacketTyreSetsData: "sizeof PacketTyreSetsData = 231"
  by (simp add: PacketTyreSetsData_def sizeof_PacketHeader sizeof_TyreSetData)

lemma sizeof_PacketMotionExData: "sizeof PacketMotionExData = 205"
  by (simp add: PacketMotionExData_def sizeof_PacketHeader)

section \<open>Reading fields off the bytes of a buffer\<close>

lemma take1_drop: "i < length xs \<Longrightarrow> take (Suc 0) (drop i xs) = [xs ! i]"
  by (metis Cons_nth_drop_Suc take0 take_Suc_Cons)

lemma le_word_single [simp]: "le_word [b] = (b :: 8 word)"
  by (simp add: le_word_def le_int_def)

lemma descriptor_PacketHeader_key:
  "descriptor PacketHeader ''packet_format'' = Some (0, c_int16)"
  "descriptor PacketHeader ''packet_version'' = Some (5, c_uint8)"
  "descriptor PacketHeader ''packet_id'' = Some (6, c_uint8)"
  by (simp_all add: descriptor_def PacketHeader_def)

lemma header_key_bytes:
  assumes "29 \<le> length packet"
  shows "header_key (CData PacketHeader (take 29 packet)) = Inr (packet_key packet)"
  using assms
  by (simp add: header_key_def descriptor_PacketHeader_key packet_key_def drop_take take1_drop
      item_get_def)

lemma get_unfold:
  assumes "29 \<le> length packet"
  shows "TelemetryListener_get packet =
    (case map_of HEADER_FIELD_TO_PACKET_TYPE (packet_key packet) of
       None \<Rightarrow> Inl (KeyError (packet_key packet))
     | Some cls \<Rightarrow> unpack cls packet)"
  using assms
  by (simp add: TelemetryListener_get_def from_buffer_copy_def sizeof_PacketHeader header_key_bytes)

lemma get_short:
  assumes "length packet < 29"
  shows "TelemetryListener_get packet = Inl (ValueError (length packet) 29)"
  using assms
  by (simp add: TelemetryListener_get_def from_buffer_copy_def sizeof_PacketHeader)

lemma registered_keys:
  "map fst HEADER_FIELD_TO_PACKET_TYPE = map (\<lambda>k. (2023, 1, k)) [0..13]"
  by (simp add: HEADER_FIELD_TO_PACKET_TYPE_def upto.simps)

lemma take2_drop: "Suc i < length xs \<Longrightarrow> take 2 (drop i xs) = [xs ! i, xs ! Suc i]"
proof -
  assume a: "Suc i < length xs"
  then have "drop i xs = xs ! i # xs ! Suc i # drop (Suc (Suc i)) xs"
    by (metis Cons_nth_drop_Suc Suc_lessD)
  then show ?thesis by (simp add: numeral_2_eq_2)
qed

lemma uint_le_word16: "uint (le_word [x, y] :: 16 word) = uint x + 256 * uint y"
proof -
  have "uint x < 256" "uint y < 256" "0 \<le> uint x" "0 \<le> uint y"
    using uint_bounded [of x] uint_bounded [of y] by simp_all
  then have bounds: "0 \<le> uint x + 256 * uint y" "uint x + 256 * uint y < 65536" by linarith+
  have le: "le_int [x, y] = uint x + 256 * uint y" by (simp add: le_int_def)
  have "uint (le_word [x, y] :: 16 word) = le_int [x, y] mod 2 ^ 16"
    by (simp only: le_word_def uint_word_of_int len_num1 len_bit0 mult_1_right)
       (simp add: uint_word_of_int)
  also have "\<dots> = uint x + 256 * uint y"
    using bounds by (simp add: le)
  finally show ?thesis .
qed

lemma descriptor_lap_delta_time: "descriptor TyreSetData ''lap_delta_time'' = Some (7, c_uint16)"
  by (simp add: descriptor_def TyreSetData_def)

section \<open>Properties of \<open>to_dict\<close>\<close>







lemma get_value_field:
  assumes "descriptor cls k = Some (off, t)"
  shows "get_value (CData cls b) k = format_type (field_get t (take (sizeof t) (drop off b)))"
  using assms by simp





section \<open>\<open>utf8_decode\<close> inverts the UTF-8 encoding\<close>

lemma utf8_decode_nat:
  "utf8_decode (b0 # bs) =
    (if unat b0 < 128 then map_option ((#) (unat b0)) (utf8_decode bs)
     else if 194 \<le> unat b0 \<and> unat b0 \<le> 223 then
       (case bs of
          b1 # r \<Rightarrow>
            if 128 \<le> unat b1 \<and> unat b1 \<le> 191
            then map_option ((#) ((unat b0 - 192) * 64 + (unat b1 - 128))) (utf8_decode r)
            else None
        | _ \<Rightarrow> None)
     else if 224 \<le> unat b0 \<and> unat b0 \<le> 239 then
       (case bs of
          b1 # b2 # r \<Rightarrow>
            if (if unat b0 = 224 then 160 \<le> unat b1 \<and> unat b1 \<le> 191
                else if unat b0 = 237 then 128 \<le> unat b1 \<and> unat b1 \<le> 159
                else 128 \<le> unat b1 \<and> unat b1 \<le> 191) \<and> 128 \<le> unat b2 \<and> unat b2 \<le> 191
            then map_option
                   ((#) ((unat b0 - 224) * 4096 + (unat b1 - 128) * 64 + (unat b2 - 128)))
                   (utf8_decode r)
            else None
        | _ \<Rightarrow> None)
     else if 240 \<le> unat b0 \<and> unat b0 \<le> 244 then
       (case bs of
          b1 # b2 # b3 # r \<Rightarrow>
            if (if unat b0 = 240 then 144 \<le> unat b1 \<and> unat b1 \<le> 191
                else if unat b0 = 244 then 128 \<le> unat b1 \<and> unat b1 \<le> 143
                else 128 \<le> unat b1 \<and> unat b1 \<le> 191)
               \<and> 128 \<le> unat b2 \<and> unat b2 \<le> 191 \<and> 128 \<le> unat b3 \<and> unat b3 \<le> 191
            then map_option
                   ((#) ((unat b0 - 240) * 262144 + (unat b1 - 128) * 4096
                         + (unat b2 - 128) * 64 + (unat b3 - 128)))
                   (utf8_decode r)
            else None
        | _ \<Rightarrow> None)
     else None)"
  by (simp add: cont_def word_less_nat_alt word_le_nat_alt word_unat_eq_iff
      cong: list.case_cong if_cong)

lemma unat_byte: "n < 256 \<Longrightarrow> unat (of_nat n :: byte) = n"
  by (simp add: unat_of_nat)

lemma div_4096: "(c::nat) div 4096 = c div 64 div 64"
  by (simp add: div_mult2_eq [symmetric])

lemma div_262144: "(c::nat) div 262144 = c div 64 div 64 div 64"
  by (simp add: div_mult2_eq [symmetric])

lemma decode_encode_char:
  assumes "valid_code_point c"
  shows "utf8_decode (utf8_encode_char c @ bs) = map_option ((#) c) (utf8_decode bs)"
proof -
  define z where "z = c mod 64"
  define d where "d = c div 64"
  define y where "y = d mod 64"
  define e where "e = d div 64"
  define x where "x = e mod 64"
  define a where "a = e div 64"
  have cz: "c = d * 64 + z" "z < 64" by (simp_all add: d_def z_def)
  have dy: "d = e * 64 + y" "y < 64" by (simp_all add: e_def y_def)
  have ex: "e = a * 64 + x" "x < 64" by (simp_all add: a_def x_def)
  have r: "c mod 64 = z" "c div 64 = d" "c div 64 mod 64 = y" "c div 4096 = e"
    "c div 4096 mod 64 = x" "c div 262144 = a"
    by (simp_all add: z_def d_def y_def e_def x_def a_def div_4096 div_262144)
  have r': "d mod 64 = y" "d div 64 = e" "e mod 64 = x" "e div 64 = a"
    by (simp_all add: y_def e_def x_def a_def)
  from assms have v: "c < 1114112" "c < 55296 \<or> 57343 < c"
    by (auto simp: valid_code_point_def)
  consider (one) "c < 128" | (two) "128 \<le> c" "c < 2048" | (three) "2048 \<le> c" "c < 65536"
    | (four) "65536 \<le> c"
    by linarith
  then show ?thesis
  proof cases
    case one
    then show ?thesis
      by (simp add: utf8_encode_char_def utf8_decode_nat unat_byte del: utf8_decode.simps)
  next
    case two
    define b0 :: byte where "b0 = of_nat (192 + d)"
    define b1 :: byte where "b1 = of_nat (128 + z)"
    have enc: "utf8_encode_char c = [b0, b1]"
      unfolding utf8_encode_char_def r b0_def b1_def using two by simp
    from two cz have b: "2 \<le> d" "d < 32" by linarith+
    have "unat b0 = 192 + d" unfolding b0_def by (rule unat_byte) (use b in linarith)
    moreover have "unat b1 = 128 + z" unfolding b1_def by (rule unat_byte) (use cz in linarith)
    ultimately have u: "unat b0 = 192 + d" "unat b1 = 128 + z" by blast+
    have "(192 + d - 192) * 64 + (128 + z - 128) = c" using cz(1) by simp
    then show ?thesis
      unfolding enc using b cz(2)
      by (simp add: utf8_decode_nat u del: utf8_decode.simps)
  next
    case three
    define b0 :: byte where "b0 = of_nat (224 + e)"
    define b1 :: byte where "b1 = of_nat (128 + y)"
    define b2 :: byte where "b2 = of_nat (128 + z)"
    have enc: "utf8_encode_char c = [b0, b1, b2]"
      unfolding utf8_encode_char_def r r' b0_def b1_def b2_def using three by simp
    from three cz dy have b: "e < 16" by linarith
    from three cz dy have lo: "e = 0 \<longrightarrow> 32 \<le> y" by (intro impI) linarith
    from three v(2) cz dy have sur: "e = 13 \<longrightarrow> y < 32" by (intro impI) linarith
    have "unat b0 = 224 + e" unfolding b0_def by (rule unat_byte) (use b in linarith)
    moreover have "unat b1 = 128 + y" unfolding b1_def by (rule unat_byte) (use dy in linarith)
    moreover have "unat b2 = 128 + z" unfolding b2_def by (rule unat_byte) (use cz in linarith)
    ultimately have u: "unat b0 = 224 + e" "unat b1 = 128 + y" "unat b2 = 128 + z" by blast+
    have "(224 + e - 224) * 4096 + (128 + y - 128) * 64 + (128 + z - 128) = c"
      using cz(1) dy(1) by simp
    then show ?thesis
      unfolding enc using b dy(2) cz(2) lo sur
      by (auto simp add: utf8_decode_nat u simp del: utf8_decode.simps)
  next
    case four
    define b0 :: byte where "b0 = of_nat (240 + a)"
    define b1 :: byte where "b1 = of_nat (128 + x)"
    define b2 :: byte where "b2 = of_nat (128 + y)"
    define b3 :: byte where "b3 = of_nat (128 + z)"
    have enc: "utf8_encode_char c = [b0, b1, b2, b3]"
      unfolding utf8_encode_char_def r r' b0_def b1_def b2_def b3_def using four by simp
    from v(1) cz dy ex have b: "a < 5" by linarith
    from four cz dy ex have lo: "a = 0 \<longrightarrow> 16 \<le> x" by (intro impI) linarith
    from v(1) cz dy ex have top: "a = 4 \<longrightarrow> x < 16" by (intro impI) linarith
    have "unat b0 = 240 + a" unfolding b0_def by (rule unat_byte) (use b in linarith)
    moreover have "unat b1 = 128 + x" unfolding b1_def by (rule unat_byte) (use ex in linarith)
    moreover have "unat b2 = 128 + y" unfolding b2_def by (rule unat_byte) (use dy in linarith)
    moreover have "unat b3 = 128 + z" unfolding b3_def by (rule unat_byte) (use cz in linarith)
    ultimately have u: "unat b0 = 240 + a" "unat b1 = 128 + x" "unat b2 = 128 + y"
      "unat b3 = 128 + z" by blast+
    have "(240 + a - 240) * 262144 + (128 + x - 128) * 4096 + (128 + y - 128) * 64
          + (128 + z - 128) = c"
      using cz(1) dy(1) ex(1) by simp
    then show ?thesis
      unfolding enc using b ex(2) dy(2) cz(2) lo top
      by (auto simp add: utf8_decode_nat u simp del: utf8_decode.simps)
  qed
qed

lemma byte_of_nat_eq: "n = unat b \<Longrightarrow> (of_nat n :: byte) = b"
  by simp

lemma base64: "x < 64 \<Longrightarrow> (d * 64 + x) div 64 = d \<and> (d * 64 + x) mod 64 = (x::nat)"
  by simp

lemma encode_bytes1:
  assumes "unat b0 < 128"
  shows "utf8_encode_char (unat b0) = [b0] \<and> valid_code_point (unat b0)"
  using assms by (simp add: utf8_encode_char_def valid_code_point_def)

lemma encode_bytes2:
  assumes "194 \<le> unat b0" "unat b0 \<le> 223" "128 \<le> unat b1" "unat b1 \<le> 191"
  defines "c \<equiv> (unat b0 - 192) * 64 + (unat b1 - 128)"
  shows "utf8_encode_char c = [b0, b1] \<and> valid_code_point c"
proof -
  define p where "p = unat b0 - 192"
  define q where "q = unat b1 - 128"
  have c: "c = p * 64 + q" by (simp add: c_def p_def q_def)
  have q: "q < 64" using assms(3,4) by (simp add: q_def)
  have p: "2 \<le> p" "p < 32" using assms(1,2) by (simp_all add: p_def)
  have dm: "c div 64 = p" "c mod 64 = q" unfolding c using base64 [OF q] by blast+
  have range: "128 \<le> c" "c < 2048" using c p q by linarith+
  have e0: "(of_nat (192 + c div 64) :: byte) = b0"
    by (rule byte_of_nat_eq) (use assms(1) dm p_def in linarith)
  have e1: "(of_nat (128 + c mod 64) :: byte) = b1"
    by (rule byte_of_nat_eq) (use assms(3) dm q_def in linarith)
  have "utf8_encode_char c = [of_nat (192 + c div 64), of_nat (128 + c mod 64)]"
    using range by (simp add: utf8_encode_char_def)
  then have "utf8_encode_char c = [b0, b1]" by (simp only: e0 e1)
  moreover have "valid_code_point c" using range by (simp add: valid_code_point_def)
  ultimately show ?thesis by blast
qed

lemma encode_bytes3:
  assumes "224 \<le> unat b0" "unat b0 \<le> 239" "128 \<le> unat b1" "unat b1 \<le> 191"
    "128 \<le> unat b2" "unat b2 \<le> 191"
    "unat b0 = 224 \<longrightarrow> 160 \<le> unat b1" "unat b0 = 237 \<longrightarrow> unat b1 \<le> 159"
  defines "c \<equiv> (unat b0 - 224) * 4096 + (unat b1 - 128) * 64 + (unat b2 - 128)"
  shows "utf8_encode_char c = [b0, b1, b2] \<and> valid_code_point c"
proof -
  define p where "p = unat b0 - 224"
  define q where "q = unat b1 - 128"
  define t where "t = unat b2 - 128"
  have cl: "c = p * 4096 + q * 64 + t" by (simp add: c_def p_def q_def t_def)
  have c: "c = (p * 64 + q) * 64 + t" by (simp add: cl)
  have q: "q < 64" using assms(3,4) by (simp add: q_def)
  have t: "t < 64" using assms(5,6) by (simp add: t_def)
  have p: "p < 16" using assms(1,2) by (simp add: p_def)
  have lo: "p = 0 \<longrightarrow> 32 \<le> q" using assms(1,3,7) unfolding p_def q_def by linarith
  have sur: "p = 13 \<longrightarrow> q < 32" using assms(1,3,8) unfolding p_def q_def by linarith
  have d1: "c div 64 = p * 64 + q" "c mod 64 = t" unfolding c using base64 [OF t] by blast+
  have d2: "c div 64 mod 64 = q" "c div 4096 = p"
    unfolding div_4096 d1 using base64 [OF q] by blast+
  have r1: "2048 \<le> c"
  proof (cases "p = 0")
    case True
    with lo have "32 \<le> q" by blast
    with cl show ?thesis by linarith
  next
    case False
    then have "1 \<le> p" by simp
    with cl show ?thesis by linarith
  qed
  have r2: "c < 65536" using cl p q t by linarith
  have r3: "c < 55296 \<or> 57343 < c"
  proof -
    consider "p < 13" | "p = 13" | "14 \<le> p" by linarith
    then show ?thesis
    proof cases
      case 1
      with cl q t show ?thesis by linarith
    next
      case 2
      with sur have "q < 32" by blast
      with cl 2 t show ?thesis by linarith
    next
      case 3
      with cl show ?thesis by linarith
    qed
  qed
  note range = r1 r2 r3
  have e0: "(of_nat (224 + c div 4096) :: byte) = b0"
    by (rule byte_of_nat_eq) (use assms(1) d2 p_def in linarith)
  have e1: "(of_nat (128 + c div 64 mod 64) :: byte) = b1"
    by (rule byte_of_nat_eq) (use assms(3) d2 q_def in linarith)
  have e2: "(of_nat (128 + c mod 64) :: byte) = b2"
    by (rule byte_of_nat_eq) (use assms(5) d1 t_def in linarith)
  have "utf8_encode_char c =
      [of_nat (224 + c div 4096), of_nat (128 + c div 64 mod 64), of_nat (128 + c mod 64)]"
    using range by (simp add: utf8_encode_char_def)
  then have "utf8_encode_char c = [b0, b1, b2]" by (simp only: e0 e1 e2)
  moreover have "valid_code_point c" using range by (auto simp: valid_code_point_def)
  ultimately show ?thesis by blast
qed

lemma encode_bytes4:
  assumes "240 \<le> unat b0" "unat b0 \<le> 244" "128 \<le> unat b1" "unat b1 \<le> 191"
    "128 \<le> unat b2" "unat b2 \<le> 191" "128 \<le> unat b3" "unat b3 \<le> 191"
    "unat b0 = 240 \<longrightarrow> 144 \<le> unat b1" "unat b0 = 244 \<longrightarrow> unat b1 \<le> 143"
  defines "c \<equiv> (unat b0 - 240) * 262144 + (unat b1 - 128) * 4096 + (unat b2 - 128) * 64
      + (unat b3 - 128)"
  shows "utf8_encode_char c = [b0, b1, b2, b3] \<and> valid_code_point c"
proof -
  define p where "p = unat b0 - 240"
  define q where "q = unat b1 - 128"
  define t where "t = unat b2 - 128"
  define w where "w = unat b3 - 128"
  have cl: "c = p * 262144 + q * 4096 + t * 64 + w" by (simp add: c_def p_def q_def t_def w_def)
  have c: "c = ((p * 64 + q) * 64 + t) * 64 + w" by (simp add: cl)
  have q: "q < 64" using assms(3,4) by (simp add: q_def)
  have t: "t < 64" using assms(5,6) by (simp add: t_def)
  have w: "w < 64" using assms(7,8) by (simp add: w_def)
  have p: "p < 5" using assms(1,2) by (simp add: p_def)
  have lo: "p = 0 \<longrightarrow> 16 \<le> q" using assms(1,3,9) unfolding p_def q_def by linarith
  have top: "p = 4 \<longrightarrow> q < 16" using assms(1,3,10) unfolding p_def q_def by linarith
  have d1: "c div 64 = (p * 64 + q) * 64 + t" "c mod 64 = w"
    unfolding c using base64 [OF w] by blast+
  have d2: "c div 64 div 64 = p * 64 + q" "c div 64 mod 64 = t"
    unfolding d1 using base64 [OF t] by blast+
  have d3: "c div 4096 mod 64 = q" "c div 262144 = p"
    unfolding div_4096 div_262144 d2 using base64 [OF q] by blast+
  have r1: "65536 \<le> c"
  proof (cases "p = 0")
    case True
    with lo have "16 \<le> q" by blast
    with cl show ?thesis by linarith
  next
    case False
    then have "1 \<le> p" by simp
    with cl show ?thesis by linarith
  qed
  have r2: "c < 1114112"
  proof (cases "p = 4")
    case True
    with top have "q < 16" by blast
    with cl True t w show ?thesis by linarith
  next
    case False
    with p have "p \<le> 3" by linarith
    with cl q t w show ?thesis by linarith
  qed
  note range = r1 r2
  have e0: "(of_nat (240 + c div 262144) :: byte) = b0"
    by (rule byte_of_nat_eq) (use assms(1) d3 p_def in linarith)
  have e1: "(of_nat (128 + c div 4096 mod 64) :: byte) = b1"
    by (rule byte_of_nat_eq) (use assms(3) d3 q_def in linarith)
  have e2: "(of_nat (128 + c div 64 mod 64) :: byte) = b2"
    by (rule byte_of_nat_eq) (use assms(5) d2 t_def in linarith)
  have e3: "(of_nat (128 + c mod 64) :: byte) = b3"
    by (rule byte_of_nat_eq) (use assms(7) d1 w_def in linarith)
  have "utf8_encode_char c =
      [of_nat (240 + c div 262144), of_nat (128 + c div 4096 mod 64),
       of_nat (128 + c div 64 mod 64), of_nat (128 + c mod 64)]"
    using range by (simp add: utf8_encode_char_def)
  then have "utf8_encode_char c = [b0, b1, b2, b3]" by (simp only: e0 e1 e2 e3)
  moreover have "valid_code_point c" using range by (auto simp: valid_code_point_def)
  ultimately show ?thesis by blast
qed

lemma decode_step:
  assumes "utf8_decode (b0 # bs) = Some s"
  shows "\<exists>c r s'. valid_code_point c \<and> b0 # bs = utf8_encode_char c @ r
           \<and> utf8_decode r = Some s' \<and> s = c # s'"
proof -
  note d = assms [unfolded utf8_decode_nat]
  consider (one) "unat b0 < 128" | (two) "194 \<le> unat b0" "unat b0 \<le> 223"
    | (three) "224 \<le> unat b0" "unat b0 \<le> 239" | (four) "240 \<le> unat b0" "unat b0 \<le> 244"
    using d by (auto split: if_splits simp del: utf8_decode.simps)
  then show ?thesis
  proof cases
    case one
    with d obtain s' where "utf8_decode bs = Some s'" "s = unat b0 # s'"
      by (auto simp del: utf8_decode.simps)
    with encode_bytes1 [OF one] show ?thesis by auto
  next
    case two
    with d obtain b1 r s' where bs: "bs = b1 # r" and b1: "128 \<le> unat b1" "unat b1 \<le> 191"
      and r: "utf8_decode r = Some s'"
      and s: "s = ((unat b0 - 192) * 64 + (unat b1 - 128)) # s'"
      by (auto split: list.splits if_splits simp del: utf8_decode.simps)
    from encode_bytes2 [OF two b1] bs r s show ?thesis by auto
  next
    case three
    then have n: "\<not> unat b0 < 128" "\<not> (194 \<le> unat b0 \<and> unat b0 \<le> 223)" by linarith+
    with d three obtain b1 b2 r s' where bs: "bs = b1 # b2 # r"
      and b1: "128 \<le> unat b1" "unat b1 \<le> 191" and b2: "128 \<le> unat b2" "unat b2 \<le> 191"
      and lo: "unat b0 = 224 \<longrightarrow> 160 \<le> unat b1" and sur: "unat b0 = 237 \<longrightarrow> unat b1 \<le> 159"
      and r: "utf8_decode r = Some s'"
      and s: "s = ((unat b0 - 224) * 4096 + (unat b1 - 128) * 64 + (unat b2 - 128)) # s'"
      by (auto split: list.splits if_splits simp del: utf8_decode.simps)
    from encode_bytes3 [OF three b1 b2 lo sur] bs r s show ?thesis by auto
  next
    case four
    then have n: "\<not> unat b0 < 128" "\<not> (194 \<le> unat b0 \<and> unat b0 \<le> 223)"
      "\<not> (224 \<le> unat b0 \<and> unat b0 \<le> 239)" by linarith+
    with d four obtain b1 b2 b3 r s' where bs: "bs = b1 # b2 # b3 # r"
      and b1: "128 \<le> unat b1" "unat b1 \<le> 191" and b2: "128 \<le> unat b2" "unat b2 \<le> 191"
      and b3: "128 \<le> unat b3" "unat b3 \<le> 191"
      and lo: "unat b0 = 240 \<longrightarrow> 144 \<le> unat b1" and top: "unat b0 = 244 \<longrightarrow> unat b1 \<le> 143"
      and r: "utf8_decode r = Some s'"
      and s: "s = ((unat b0 - 240) * 262144 + (unat b1 - 128) * 4096 + (unat b2 - 128) * 64
                + (unat b3 - 128)) # s'"
      by (auto split: list.splits if_splits simp del: utf8_decode.simps)
    from encode_bytes4 [OF four b1 b2 b3 lo top] bs r s show ?thesis by auto
  qed
qed

lemma utf8_encode_Cons: "utf8_encode (c # s) = utf8_encode_char c @ utf8_encode s"
  by (simp add: utf8_encode_def)

lemma utf8_encode_char_nonempty: "utf8_encode_char c \<noteq> []"
  by (simp add: utf8_encode_char_def)

lemma encode_decode:
  "utf8_decode bs = Some s \<Longrightarrow> utf8_encode s = bs \<and> list_all valid_code_point s"
proof (induction "length bs" arbitrary: bs s rule: less_induct)
  case less
  show ?case
  proof (cases bs)
    case Nil
    with less.prems show ?thesis by (simp add: utf8_encode_def)
  next
    case (Cons b0 r0)
    with less.prems decode_step obtain c r s' where c: "valid_code_point c"
      and e: "b0 # r0 = utf8_encode_char c @ r" and r: "utf8_decode r = Some s'" and s: "s = c # s'"
      by blast
    have "length r < length bs"
      using e Cons utf8_encode_char_nonempty [of c]
      by (metis append_eq_conv_conj length_drop diff_less length_greater_0_conv list.size(3)
          length_Cons zero_less_Suc)
    from less.hyps [OF this r] have "utf8_encode s' = r" "list_all valid_code_point s'" by blast+
    with c e s Cons show ?thesis by (simp add: utf8_encode_Cons)
  qed
qed

lemma decode_encode:
  "list_all valid_code_point s \<Longrightarrow> utf8_decode (utf8_encode s) = Some s"
proof (induction s)
  case Nil
  then show ?case by (simp add: utf8_encode_def)
next
  case (Cons c s)
  then show ?case
    by (simp add: utf8_encode_Cons decode_encode_char del: utf8_decode.simps)
qed

lemma utf8_decode_iff:
  "utf8_decode bs = Some s \<longleftrightarrow> list_all valid_code_point s \<and> utf8_encode s = bs"
  using encode_decode decode_encode by blast

section \<open>Worked examples\<close>









section \<open>Field tables and examples for the claims\<close>

lemma take_eq_map_nth: "n \<le> length xs \<Longrightarrow> take n xs = map ((!) xs) [0..<n]"
  by (simp add: list_eq_iff_nth_eq)




lemma descriptor_LapHistoryData:
  "descriptor LapHistoryData name =
    (if name = ''lap_valid_bit_flags'' then Some (13, c_uint8)
     else if name = ''sector1_time_minutes'' then Some (12, c_uint8)
     else if name = ''sector3_time_in_ms'' then Some (10, c_uint16)
     else if name = ''sector2_time_minutes'' then Some (9, c_uint8)
     else if name = ''sector2_time_in_ms'' then Some (7, c_uint16)
     else if name = ''sector1_time_in_ms'' then Some (4, c_uint16)
     else if name = ''lap_time_in_ms'' then Some (0, c_uint32)
     else None)"
  by (simp add: descriptor_def LapHistoryData_def)





lemma upt_14: "[0..<14] = [0, 1, 2, 3, 4, 5, 6, 7, 8, 9, 10, 11, 12, 13]"
  by code_simp

lemma take_14:
  assumes "14 \<le> length b"
  shows "take 14 b = [b ! 0, b ! 1, b ! 2, b ! 3, b ! 4, b ! 5, b ! 6, b ! 7, b ! 8, b ! 9,
                      b ! 10, b ! 11, b ! 12, b ! 13]"
  using take_eq_map_nth [OF assms] by (simp add: upt_14)

lemma names_LapHistoryData:
  "map fst (fields_of LapHistoryData) =
    [''lap_time_in_ms'', ''sector1_time_in_ms'', ''sector1_time_minutes'', ''sector2_time_in_ms'',
     ''sector2_time_minutes'', ''sector3_time_in_ms'', ''sector1_time_minutes'',
     ''lap_valid_bit_flags'']"
  by (simp add: LapHistoryData_def)

lemma update_6:
  "[b0, b1, b2, b3, b4, b5, b6, b7, b8, b9, b10, b11, b12, b13][6 := x] =
   [b0, b1, b2, b3, b4, b5, x, b7, b8, b9, b10, b11, b12, b13 :: byte]"
  by code_simp

lemma to_dict_LapHistoryData:
  "to_dict (CData LapHistoryData [b0, b1, b2, b3, b4, b5, b6, b7, b8, b9, b10, b11, b12, b13]) =
    Inr (PDict
      [(''lap_time_in_ms'', PInt (uint (le_word [b0, b1, b2, b3] :: 32 word))),
       (''sector1_time_in_ms'', PInt (uint (le_word [b4, b5] :: 16 word))),
       (''sector1_time_minutes'', PInt (uint b12)),
       (''sector2_time_in_ms'', PInt (uint (le_word [b7, b8] :: 16 word))),
       (''sector2_time_minutes'', PInt (uint b9)),
       (''sector3_time_in_ms'', PInt (uint (le_word [b10, b11] :: 16 word))),
       (''lap_valid_bit_flags'', PInt (uint b13))])"
  by (simp add: names_LapHistoryData descriptor_LapHistoryData item_get_def)

lemma getattr_LapHistoryData_byte6:
  "getattr (CData LapHistoryData [b0, b1, b2, b3, b4, b5, x, b7, b8, b9, b10, b11, b12, b13]) name =
   getattr (CData LapHistoryData [b0, b1, b2, b3, b4, b5, b6, b7, b8, b9, b10, b11, b12, b13]) name"
  by (simp add: descriptor_LapHistoryData)

lemma take_drop_map_nth:
  "i + n \<le> length xs \<Longrightarrow> take n (drop i xs) = map (\<lambda>j. xs ! (i + j)) [0..<n]"
  by (simp add: list_eq_iff_nth_eq)

lemma upt_12: "[0..<12] = [0, 1, 2, 3, 4, 5, 6, 7, 8, 9, 10, 11]"
  by code_simp

lemma descriptor_PacketEventData:
  "descriptor PacketEventData ''event_string_code'' = Some (29, Array c_uint8 4)"
  "descriptor PacketEventData ''event_details'' = Some (33, EventDataDetails)"
  by (simp_all add: descriptor_def PacketEventData_def sizeof_PacketHeader)

lemma field_get_EventDataDetails: "field_get EventDataDetails bs = CData EventDataDetails bs"
  by (simp add: EventDataDetails_def item_get_def)

lemma getattr_event_members:
  "\<forall>(k, t) \<in> set (fields_of EventDataDetails).
     getattr (CData EventDataDetails pay) k = Inr (CData t (take (sizeof t) pay))"
  by (simp add: EventDataDetails_def descriptor_def event_member_defs item_get_def)

lemma names_EventDataDetails:
  "map fst (fields_of EventDataDetails) =
    [''fastest_lap'', ''retirement'', ''team_mate_in_pits'', ''race_winner'', ''penalty'',
     ''speed_trap'', ''start_lights'', ''drive_through_penalty_served'',
     ''stop_go_penalty_served'', ''flashback'', ''buttons'', ''overtake'']"
  by (simp add: EventDataDetails_def)

lemma to_dict_EventDataDetails_keys:
  "\<exists>d. to_dict (CData EventDataDetails [p0, p1, p2, p3, p4, p5, p6, p7, p8, p9, p10, p11])
         = Inr (PDict d)
       \<and> map fst d = map fst (fields_of EventDataDetails)"
  by (simp add: EventDataDetails_def descriptor_def event_member_defs item_get_def)

lemma upt_5: "[0..<5] = [0, 1, 2, 3, 4]"
  by code_simp

lemma descriptor_FastestLap:
  "descriptor FastestLap ''vehicle_idx'' = Some (0, c_uint8)"
  "descriptor FastestLap ''lap_time'' = Some (1, c_float)"
  by (simp_all add: descriptor_def FastestLap_def)

lemma map_of_event: "map_of HEADER_FIELD_TO_PACKET_TYPE (2023, 1, 3) = Some PacketEventData"
  by (simp add: HEADER_FIELD_TO_PACKET_TYPE_def)

lemma event_zzzz:
  "[90, 90, 90, 90] \<notin> set (map (map of_char) EVENT_CODES :: byte list list)"
  by code_simp

lemma event_ftlp:
  "map of_char ''FTLP'' = [70, 84, 76, 80 :: byte]"
  by code_simp

lemma get_zzzz:
  "TelemetryListener_get ([231, 7, 23, 1, 0, 1, 3] @ replicate 22 0 @ [90, 90, 90, 90]
       @ [3, 224, 233, 246, 66, 0, 0, 0, 0, 0, 0, 0])
   = Inr (CData PacketEventData ([231, 7, 23, 1, 0, 1, 3] @ replicate 22 0 @ [90, 90, 90, 90]
       @ [3, 224, 233, 246, 66, 0, 0, 0, 0, 0, 0, 0]))"
  by code_simp

lemma get_ftlp:
  "TelemetryListener_get ([231, 7, 23, 1, 0, 1, 3] @ replicate 22 0 @ [70, 84, 76, 80]
       @ [3, 224, 233, 246, 66, 0, 0, 0, 0, 0, 0, 0])
   = Inr (CData PacketEventData ([231, 7, 23, 1, 0, 1, 3] @ replicate 22 0 @ [70, 84, 76, 80]
       @ [3, 224, 233, 246, 66, 0, 0, 0, 0, 0, 0, 0]))"
  by code_simp

lemma details_ftlp:
  "getattr (CData PacketEventData ([231, 7, 23, 1, 0, 1, 3] @ replicate 22 0 @ [70, 84, 76, 80]
       @ [3, 224, 233, 246, 66, 0, 0, 0, 0, 0, 0, 0])) ''event_details''
   = Inr (CData EventDataDetails [3, 224, 233, 246, 66, 0, 0, 0, 0, 0, 0, 0])"
  by code_simp

lemma retirement_ftlp:
  "dict_item (to_dict (CData EventDataDetails [3, 224, 233, 246, 66, 0, 0, 0, 0, 0, 0, 0]))
      ''retirement'' = Some (PDict [(''vehicle_idx'', PInt 3)])"
  by code_simp

lemma penalty_ftlp:
  "dict_item (to_dict (CData EventDataDetails [3, 224, 233, 246, 66, 0, 0, 0, 0, 0, 0, 0]))
      ''penalty'' =
    Some (PDict [(''penalty_type'', PInt 3), (''infringement_type'', PInt 224),
                 (''vehicle_idx'', PInt 233), (''other_vehicle_idx'', PInt 246),
                 (''time'', PInt 66), (''lap_num'', PInt 0), (''places_gained'', PInt 0)])"
  by code_simp

lemma fastest_lap_ftlp:
  "dict_item (to_dict (CData EventDataDetails [3, 224, 233, 246, 66, 0, 0, 0, 0, 0, 0, 0]))
      ''fastest_lap'' =
    Some (PDict [(''vehicle_idx'', PInt 3),
                 (''lap_time'', PFloat (Finite (1085939256242733 / 8796093022208)))])"
  by code_simp

lemma key_ftlp:
  "packet_key ([231, 7, 23, 1, 0, 1, 3] @ replicate 22 0 @ [70, 84, 76, 80]
       @ [3, 224, 233, 246, 66, 0, 0, 0, 0, 0, 0, 0]) = (2023, 1, 3)"
  by code_simp

lemma bytes_ftlp:
  "take 45 ([231, 7, 23, 1, 0, 1, 3] @ replicate 22 0 @ [70, 84, 76, 80]
       @ [3, 224, 233, 246, 66, 0, 0, 0, 0, 0, 0, 0 :: byte])
     = [231, 7, 23, 1, 0, 1, 3] @ replicate 22 0 @ [70, 84, 76, 80]
       @ [3, 224, 233, 246, 66, 0, 0, 0, 0, 0, 0, 0]"
  "take 5 (drop 33 ([231, 7, 23, 1, 0, 1, 3] @ replicate 22 0 @ [70, 84, 76, 80]
       @ [3, 224, 233, 246, 66, 0, 0, 0, 0, 0, 0, 0 :: byte])) = [3, 224, 233, 246, 66]"
  "([231, 7, 23, 1, 0, 1, 3] @ replicate 22 0 @ [70, 84, 76, 80]
       @ [3, 224, 233, 246, 66, 0, 0, 0, 0, 0, 0, 0 :: byte]) ! 33 = 3"
  by code_simp+

lemma alignment_pos: "0 < alignment t" and alignment_union_pos: "0 < alignment_union fs"
  by (induction t and fs rule: alignment_alignment_union.induct) simp_all

lemma round_up_ge: "0 < a \<Longrightarrow> n \<le> round_up n a"
proof -
  assume a: "0 < a"
  define q where "q = (n + a - 1) div a"
  define r where "r = (n + a - 1) mod a"
  have e: "q * a + r = n + a - 1" unfolding q_def r_def by (rule div_mult_mod_eq)
  have "r < a" unfolding r_def using a by (rule mod_less_divisor)
  with e a have "n \<le> q * a" by linarith
  then show ?thesis unfolding round_up_def q_def .
qed

lemma field_offsets_bound:
  "(k, off, t) \<in> set (field_offsets o' fs) \<Longrightarrow> off + sizeof t \<le> o' + sizeof_fields fs"
  by (induction fs arbitrary: o') fastforce+

lemma sizeof_members_bound: "(k, t) \<in> set fs \<Longrightarrow> sizeof t \<le> sizeof_members fs"
  by (induction fs) auto

lemma descriptors_bound:
  assumes "(k, off, t) \<in> set (descriptors cls)"
  shows "off + sizeof t \<le> sizeof cls"
proof (cases cls)
  case (Structure nm fs)
  with assms show ?thesis using field_offsets_bound [of k off t 0 fs] by simp
next
  case (Union_t nm fs)
  with assms have "off = 0" "(k, t) \<in> set fs" by auto
  then have "off + sizeof t \<le> sizeof_members fs" by (simp add: sizeof_members_bound)
  also have "\<dots> \<le> round_up (sizeof_members fs) (alignment_union fs)"
    by (rule round_up_ge) (rule alignment_union_pos)
  finally show ?thesis using Union_t by simp
qed (use assms in simp_all)

lemma well_sized_field_get: "length bs = sizeof t \<Longrightarrow> well_sized (field_get t bs)"
  by (induction t bs rule: field_get.induct) (simp_all add: item_get_def)

lemma well_sized_getattr:
  assumes "well_sized r" and "getattr r k = Inr v"
  shows "well_sized v"
proof (cases r)
  case (CData cls b)
  with assms(2) obtain off t where d: "descriptor cls k = Some (off, t)"
    and v: "v = field_get t (take (sizeof t) (drop off b))"
    by (auto split: option.splits)
  from d have "(k, off, t) \<in> set (descriptors cls)"
    unfolding descriptor_def by (auto dest: map_of_SomeD)
  then have "off + sizeof t \<le> sizeof cls" by (rule descriptors_bound)
  with assms(1) CData have "length (take (sizeof t) (drop off b)) = sizeof t" by simp
  then show ?thesis unfolding v by (rule well_sized_field_get)
qed (use assms in simp_all)

section \<open>The claims\<close>

subsection \<open>C1: size of the packet header and of the motion packet\<close>

text \<open>
  C1 states that \<open>PacketHeader.size()\<close> is 24 and that the motion packet has
  \<open>24 + 22 * 60\<close> bytes. The twelve header fields add up to 29 bytes, so the claim
  as stated does not hold.
\<close>

theorem C1_header_not_24_bytes:
  "\<not> (size_cls PacketHeader = 24 \<and> size_cls PacketMotionData = 24 + 22 * 60)"
  by (simp add: size_cls_def sizeof_PacketHeader)

text \<open>
  C1 as amended: \<open>PacketHeader.size()\<close> is 29; the dispatch key \<open>(2023, 1, 0)\<close>
  selects the motion packet, whose size is \<open>29 + 22 * 60 = 1349\<close> bytes: the header
  at offset 0, followed at offset 29 by 22 car records of 60 bytes.
\<close>

theorem C1_header_29_bytes:
  "size_cls PacketHeader = 29
   \<and> map_of HEADER_FIELD_TO_PACKET_TYPE (2023, 1, 0) = Some PacketMotionData
   \<and> descriptor PacketMotionData ''header'' = Some (0, PacketHeader)
   \<and> descriptor PacketMotionData ''car_motion_data'' = Some (29, Array CarMotionData 22)
   \<and> size_cls CarMotionData = 60
   \<and> size_cls PacketMotionData = 29 + 22 * 60"
  by (simp add: size_cls_def sizeof_PacketHeader sizeof_CarMotionData sizeof_PacketMotionData
      HEADER_FIELD_TO_PACKET_TYPE_def descriptor_def PacketMotionData_def)

subsection \<open>C2: the event packet and its code\<close>

text \<open>
  C2 states that decoding an event packet selects one of twelve sub-records by the
  4-byte code, populates no other, and fails on an unknown code. The code of the
  packet is never looked at: a packet with the code \<open>ZZZZ\<close>, which is not in the
  table of event codes, decodes; and in a packet with the code \<open>FTLP\<close> the union
  \<open>event_details\<close> canonicalizes with the members \<open>retirement\<close> and \<open>penalty\<close>
  populated from the same payload bytes as \<open>fastest_lap\<close>.
\<close>

theorem C2_unknown_code_decodes:
  "[90, 90, 90, 90] \<notin> set (map (map of_char) EVENT_CODES :: byte list list)
   \<and> TelemetryListener_get ([231, 7, 23, 1, 0, 1, 3] @ replicate 22 0 @ [90, 90, 90, 90]
         @ [3, 224, 233, 246, 66, 0, 0, 0, 0, 0, 0, 0])
       = Inr (CData PacketEventData ([231, 7, 23, 1, 0, 1, 3] @ replicate 22 0 @ [90, 90, 90, 90]
         @ [3, 224, 233, 246, 66, 0, 0, 0, 0, 0, 0, 0]))
   \<and> map of_char ''FTLP'' = [70, 84, 76, 80 :: byte]
   \<and> TelemetryListener_get ([231, 7, 23, 1, 0, 1, 3] @ replicate 22 0 @ [70, 84, 76, 80]
         @ [3, 224, 233, 246, 66, 0, 0, 0, 0, 0, 0, 0])
       = Inr (CData PacketEventData ([231, 7, 23, 1, 0, 1, 3] @ replicate 22 0 @ [70, 84, 76, 80]
         @ [3, 224, 233, 246, 66, 0, 0, 0, 0, 0, 0, 0]))
   \<and> getattr (CData PacketEventData ([231, 7, 23, 1, 0, 1, 3] @ replicate 22 0 @ [70, 84, 76, 80]
         @ [3, 224, 233, 246, 66, 0, 0, 0, 0, 0, 0, 0])) ''event_details''
       = Inr (CData EventDataDetails [3, 224, 233, 246, 66, 0, 0, 0, 0, 0, 0, 0])
   \<and> dict_item (to_dict (CData EventDataDetails [3, 224, 233, 246, 66, 0, 0, 0, 0, 0, 0, 0]))
        ''fastest_lap''
       = Some (PDict [(''vehicle_idx'', PInt 3),
                      (''lap_time'', PFloat (Finite (1085939256242733 / 8796093022208)))])
   \<and> dict_item (to_dict (CData EventDataDetails [3, 224, 233, 246, 66, 0, 0, 0, 0, 0, 0, 0]))
        ''retirement''
       = Some (PDict [(''vehicle_idx'', PInt 3)])
   \<and> dict_item (to_dict (CData EventDataDetails [3, 224, 233, 246, 66, 0, 0, 0, 0, 0, 0, 0]))
        ''penalty''
       = Some (PDict [(''penalty_type'', PInt 3), (''infringement_type'', PInt 224),
                      (''vehicle_idx'', PInt 233), (''other_vehicle_idx'', PInt 246),
                      (''time'', PInt 66), (''lap_num'', PInt 0), (''places_gained'', PInt 0)])"
  using event_zzzz get_zzzz event_ftlp get_ftlp details_ftlp fastest_lap_ftlp retirement_ftlp
    penalty_ftlp
  by blast

text \<open>
  C2 as amended: every packet of at least 45 bytes whose key is \<open>(2023, 1, 3)\<close>
  decodes to a \<open>PacketEventData\<close> record, whatever its code. \<open>event_string_code\<close> is
  the array of the four bytes at offset 29 and \<open>event_details\<close> the union over the
  twelve bytes at offset 33. Each of the twelve members of the union reads the first
  bytes of these same twelve bytes under its own layout: the member \<open>fastest_lap\<close>
  has the vehicle index of byte 33 and the lap time of the float in bytes 34 to 37,
  and \<open>to_dict\<close> of the union has an entry for every member.
\<close>

theorem C2_event_code_not_consulted:
  assumes "45 \<le> length p" and "packet_key p = (2023, 1, 3)"
  shows "TelemetryListener_get p = Inr (CData PacketEventData (take 45 p))
    \<and> getattr (CData PacketEventData (take 45 p)) ''event_string_code''
        = Inr (CData (Array c_uint8 4) (take 4 (drop 29 p)))
    \<and> getattr (CData PacketEventData (take 45 p)) ''event_details''
        = Inr (CData EventDataDetails (take 12 (drop 33 p)))
    \<and> (\<forall>(k, t) \<in> set (fields_of EventDataDetails).
          getattr (CData EventDataDetails (take 12 (drop 33 p))) k
            = Inr (CData t (take (sizeof t) (take 12 (drop 33 p)))))
    \<and> getattr (CData FastestLap (take 5 (drop 33 p))) ''vehicle_idx'' = Inr (PInt (uint (p ! 33)))
    \<and> getattr (CData FastestLap (take 5 (drop 33 p))) ''lap_time''
        = Inr (PFloat (ieee_value 8 23 (le_int [p ! 34, p ! 35, p ! 36, p ! 37])))
    \<and> (\<exists>d. to_dict (CData EventDataDetails (take 12 (drop 33 p))) = Inr (PDict d)
          \<and> map fst d =
              [''fastest_lap'', ''retirement'', ''team_mate_in_pits'', ''race_winner'', ''penalty'',
               ''speed_trap'', ''start_lights'', ''drive_through_penalty_served'',
               ''stop_go_penalty_served'', ''flashback'', ''buttons'', ''overtake''])"
proof -
  have "TelemetryListener_get p = Inr (CData PacketEventData (take 45 p))"
    using assms by (simp add: get_unfold map_of_event unpack_def from_buffer_copy_def
        sizeof_PacketEventData)
  moreover have "getattr (CData PacketEventData (take 45 p)) ''event_string_code''
        = Inr (CData (Array c_uint8 4) (take 4 (drop 29 p)))"
    by (simp add: descriptor_PacketEventData item_get_def drop_take)
  moreover have "getattr (CData PacketEventData (take 45 p)) ''event_details''
        = Inr (CData EventDataDetails (take 12 (drop 33 p)))"
    by (simp add: descriptor_PacketEventData sizeof_EventDataDetails field_get_EventDataDetails
        drop_take)
  moreover note getattr_event_members [of "take 12 (drop 33 p)"]
  moreover have t5: "take 5 (drop 33 p) = [p ! 33, p ! 34, p ! 35, p ! 36, p ! 37]"
    using assms(1) by (simp add: take_drop_map_nth upt_5)
  have "getattr (CData FastestLap (take 5 (drop 33 p))) ''vehicle_idx'' = Inr (PInt (uint (p ! 33)))"
    unfolding t5 by (simp add: descriptor_FastestLap item_get_def)
  moreover have "getattr (CData FastestLap (take 5 (drop 33 p))) ''lap_time''
        = Inr (PFloat (ieee_value 8 23 (le_int [p ! 34, p ! 35, p ! 36, p ! 37])))"
    unfolding t5 by (simp add: descriptor_FastestLap item_get_def)
  moreover have "take 12 (drop 33 p) = [p ! 33, p ! 34, p ! 35, p ! 36, p ! 37, p ! 38, p ! 39,
      p ! 40, p ! 41, p ! 42, p ! 43, p ! 44]"
    using assms(1) by (simp add: take_drop_map_nth upt_12)
  then have "\<exists>d. to_dict (CData EventDataDetails (take 12 (drop 33 p))) = Inr (PDict d)
          \<and> map fst d =
              [''fastest_lap'', ''retirement'', ''team_mate_in_pits'', ''race_winner'', ''penalty'',
               ''speed_trap'', ''start_lights'', ''drive_through_penalty_served'',
               ''stop_go_penalty_served'', ''flashback'', ''buttons'', ''overtake'']"
    using to_dict_EventDataDetails_keys names_EventDataDetails by simp
  ultimately show ?thesis by blast
qed

theorem C2_event_code_not_consulted_witness:
  "45 \<le> length ([231, 7, 23, 1, 0, 1, 3] @ replicate 22 0 @ [70, 84, 76, 80]
       @ [3, 224, 233, 246, 66, 0, 0, 0, 0, 0, 0, 0 :: byte])
   \<and> packet_key ([231, 7, 23, 1, 0, 1, 3] @ replicate 22 0 @ [70, 84, 76, 80]
       @ [3, 224, 233, 246, 66, 0, 0, 0, 0, 0, 0, 0]) = (2023, 1, 3)
   \<and> TelemetryListener_get ([231, 7, 23, 1, 0, 1, 3] @ replicate 22 0 @ [70, 84, 76, 80]
         @ [3, 224, 233, 246, 66, 0, 0, 0, 0, 0, 0, 0])
       = Inr (CData PacketEventData ([231, 7, 23, 1, 0, 1, 3] @ replicate 22 0 @ [70, 84, 76, 80]
         @ [3, 224, 233, 246, 66, 0, 0, 0, 0, 0, 0, 0]))
   \<and> getattr (CData FastestLap [3, 224, 233, 246, 66]) ''vehicle_idx'' = Inr (PInt 3)"
proof -
  have l: "45 \<le> length ([231, 7, 23, 1, 0, 1, 3] @ replicate 22 0 @ [70, 84, 76, 80]
       @ [3, 224, 233, 246, 66, 0, 0, 0, 0, 0, 0, 0 :: byte])"
    by simp
  note c = C2_event_code_not_consulted [OF l key_ftlp]
  from c have "TelemetryListener_get ([231, 7, 23, 1, 0, 1, 3] @ replicate 22 0 @ [70, 84, 76, 80]
         @ [3, 224, 233, 246, 66, 0, 0, 0, 0, 0, 0, 0])
       = Inr (CData PacketEventData ([231, 7, 23, 1, 0, 1, 3] @ replicate 22 0 @ [70, 84, 76, 80]
         @ [3, 224, 233, 246, 66, 0, 0, 0, 0, 0, 0, 0]))"
    unfolding bytes_ftlp by blast
  moreover from c have "getattr (CData FastestLap [3, 224, 233, 246, 66]) ''vehicle_idx''
      = Inr (PInt (uint (3 :: byte)))"
    unfolding bytes_ftlp by blast
  ultimately show ?thesis using l key_ftlp by simp
qed

subsection \<open>C3: which buffers \<open>unpack\<close> accepts\<close>

text \<open>
  C3 states that \<open>unpack\<close> succeeds only on a buffer of exactly \<open>size()\<close> bytes and
  fails on a longer one. \<open>from_buffer_copy\<close> accepts a longer buffer: here a buffer of
  46 bytes is unpacked as an event packet (45 bytes), and its last byte is dropped.
\<close>

theorem C3_longer_buffer_decodes:
  "length (replicate 45 0 @ [255 :: byte]) \<noteq> size_cls PacketEventData
   \<and> unpack PacketEventData (replicate 45 0 @ [255]) = Inr (CData PacketEventData (replicate 45 0))"
  by (simp add: unpack_def from_buffer_copy_def size_cls_def sizeof_PacketEventData)

text \<open>
  C3 as amended: for every class and every buffer, \<open>unpack\<close> succeeds if and only if
  the buffer has at least \<open>size()\<close> bytes. A shorter buffer fails with a
  \<open>ValueError\<close> that carries the actual and the required length. A buffer of at
  least \<open>size()\<close> bytes yields the record whose bytes are the first \<open>size()\<close> bytes
  of the buffer: bytes beyond are ignored, and no byte is padded.
\<close>

theorem C3_unpack_accepts_longer_buffers:
  "((\<exists>r. unpack cls b = Inr r) \<longleftrightarrow> size_cls cls \<le> length b)
   \<and> (length b < size_cls cls \<longrightarrow> unpack cls b = Inl (ValueError (length b) (size_cls cls)))
   \<and> (size_cls cls \<le> length b \<longrightarrow>
        unpack cls b = Inr (CData cls (take (size_cls cls) b))
        \<and> pack (CData cls (take (size_cls cls) b)) = Inr (take (size_cls cls) b))"
  by (auto simp: unpack_def from_buffer_copy_def size_cls_def)

theorem C3_unpack_accepts_longer_buffers_witness:
  "unpack PacketEventData (replicate 45 7 @ [1, 2, 3]) = Inr (CData PacketEventData (replicate 45 7))
   \<and> unpack PacketEventData (replicate 44 7) = Inl (ValueError 44 45)"
  using C3_unpack_accepts_longer_buffers [of PacketEventData "replicate 45 7 @ [1, 2, 3]"]
        C3_unpack_accepts_longer_buffers [of PacketEventData "replicate 44 7"]
  by (simp add: size_cls_def sizeof_PacketEventData)

subsection \<open>C4: a key that is not registered\<close>

text \<open>
  C4: the listener fails on every packet whose key is not one of the fourteen
  registered keys. A packet shorter than the header fails with \<open>ValueError\<close>; a
  packet of at least 29 bytes whose key \<open>(packet_format, packet_version, packet_id)\<close>
  is not in the table fails with \<open>KeyError\<close> of that key; so whenever the listener
  returns a record, the key of the packet is registered. The registered keys are
  exactly \<open>(2023, 1, k)\<close> for \<open>k\<close> from 0 to 13.
\<close>

theorem C4_unregistered_key_fails:
  "(29 \<le> length packet \<longrightarrow>
      from_buffer_copy PacketHeader packet = Inr (CData PacketHeader (take 29 packet))
      \<and> header_key (CData PacketHeader (take 29 packet)) = Inr (packet_key packet))
   \<and> (length packet < 29 \<longrightarrow> TelemetryListener_get packet = Inl (ValueError (length packet) 29))
   \<and> (29 \<le> length packet \<and> packet_key packet \<notin> set (map fst HEADER_FIELD_TO_PACKET_TYPE)
        \<longrightarrow> TelemetryListener_get packet = Inl (KeyError (packet_key packet)))
   \<and> (TelemetryListener_get packet = Inr r
        \<longrightarrow> packet_key packet \<in> set (map fst HEADER_FIELD_TO_PACKET_TYPE))
   \<and> map fst HEADER_FIELD_TO_PACKET_TYPE = map (\<lambda>k. (2023, 1, k)) [0..13]"
proof (intro conjI impI)
  assume "29 \<le> length packet"
  then show "from_buffer_copy PacketHeader packet = Inr (CData PacketHeader (take 29 packet))"
    by (simp add: from_buffer_copy_def sizeof_PacketHeader)
next
  assume "29 \<le> length packet"
  then show "header_key (CData PacketHeader (take 29 packet)) = Inr (packet_key packet)"
    by (rule header_key_bytes)
next
  assume "length packet < 29"
  then show "TelemetryListener_get packet = Inl (ValueError (length packet) 29)"
    by (rule get_short)
next
  assume a: "29 \<le> length packet \<and> packet_key packet \<notin> set (map fst HEADER_FIELD_TO_PACKET_TYPE)"
  then have "map_of HEADER_FIELD_TO_PACKET_TYPE (packet_key packet) = None"
    by (simp add: map_of_eq_None_iff)
  with a show "TelemetryListener_get packet = Inl (KeyError (packet_key packet))"
    by (simp add: get_unfold)
next
  assume r: "TelemetryListener_get packet = Inr r"
  show "packet_key packet \<in> set (map fst HEADER_FIELD_TO_PACKET_TYPE)"
  proof (cases "length packet < 29")
    case True
    with r show ?thesis by (simp add: get_short)
  next
    case False
    with r have "map_of HEADER_FIELD_TO_PACKET_TYPE (packet_key packet) \<noteq> None"
      by (auto simp: get_unfold split: option.splits)
    then show ?thesis by (simp add: map_of_eq_None_iff)
  qed
next
  show "map fst HEADER_FIELD_TO_PACKET_TYPE = map (\<lambda>k. (2023, 1, k)) [0..13]"
    by (rule registered_keys)
qed

theorem C4_unregistered_key_fails_witness:
  "29 \<le> length ([230, 7, 22, 1, 0, 1, 0] @ replicate 22 (0 :: byte))
   \<and> packet_key ([230, 7, 22, 1, 0, 1, 0] @ replicate 22 0) = (2022, 1, 0)
   \<and> (2022, 1, 0) \<notin> set (map fst HEADER_FIELD_TO_PACKET_TYPE)
   \<and> TelemetryListener_get ([230, 7, 22, 1, 0, 1, 0] @ replicate 22 0) = Inl (KeyError (2022, 1, 0))
   \<and> TelemetryListener_get [231, 7, 23] = Inl (ValueError 3 29)
   \<and> TelemetryListener_get ([231, 7, 23, 1, 0, 1, 3] @ replicate 22 0 @ [70, 84, 76, 80]
         @ [3, 224, 233, 246, 66, 0, 0, 0, 0, 0, 0, 0])
       = Inr (CData PacketEventData ([231, 7, 23, 1, 0, 1, 3] @ replicate 22 0 @ [70, 84, 76, 80]
         @ [3, 224, 233, 246, 66, 0, 0, 0, 0, 0, 0, 0]))
   \<and> packet_key ([231, 7, 23, 1, 0, 1, 3] @ replicate 22 0 @ [70, 84, 76, 80]
         @ [3, 224, 233, 246, 66, 0, 0, 0, 0, 0, 0, 0])
       \<in> set (map fst HEADER_FIELD_TO_PACKET_TYPE)"
proof -
  have k: "packet_key ([230, 7, 22, 1, 0, 1, 0] @ replicate 22 0) = (2022, 1, 0)"
    by (simp add: packet_key_def le_word_def le_int_def)
  have n: "(2022, 1, 0) \<notin> set (map fst HEADER_FIELD_TO_PACKET_TYPE)"
    by (simp add: HEADER_FIELD_TO_PACKET_TYPE_def)
  have l: "29 \<le> length ([230, 7, 22, 1, 0, 1, 0] @ replicate 22 (0 :: byte))"
    by simp
  have "TelemetryListener_get ([230, 7, 22, 1, 0, 1, 0] @ replicate 22 0)
      = Inl (KeyError (packet_key ([230, 7, 22, 1, 0, 1, 0] @ replicate 22 0)))"
    using C4_unregistered_key_fails [where packet = "[230, 7, 22, 1, 0, 1, 0] @ replicate 22 0"]
      l n unfolding k by blast
  then have unregistered: "TelemetryListener_get ([230, 7, 22, 1, 0, 1, 0] @ replicate 22 0)
      = Inl (KeyError (2022, 1, 0))"
    unfolding k .
  have "length [231, 7, 23 :: byte] < 29" by simp
  then have "TelemetryListener_get [231, 7, 23] = Inl (ValueError (length [231, 7, 23 :: byte]) 29)"
    using C4_unregistered_key_fails [where packet = "[231, 7, 23]"] by blast
  then have short: "TelemetryListener_get [231, 7, 23] = Inl (ValueError 3 29)"
    by simp
  have registered: "packet_key ([231, 7, 23, 1, 0, 1, 3] @ replicate 22 0 @ [70, 84, 76, 80]
         @ [3, 224, 233, 246, 66, 0, 0, 0, 0, 0, 0, 0])
       \<in> set (map fst HEADER_FIELD_TO_PACKET_TYPE)"
    using C4_unregistered_key_fails [where packet = "[231, 7, 23, 1, 0, 1, 3] @ replicate 22 0
         @ [70, 84, 76, 80] @ [3, 224, 233, 246, 66, 0, 0, 0, 0, 0, 0, 0]"] get_ftlp
    by blast
  show ?thesis
    using l n unregistered short get_ftlp registered unfolding k by blast
qed

subsection \<open>C5: sizes of the fourteen registered packets\<close>

text \<open>
  C5 states that each key \<open>(2023, 1, k)\<close> with \<open>k\<close> in \<open>[0, 13]\<close> selects a layout of
  the documented size, 217 bytes for the extended motion packet (kind 13). The table
  below gives the size of every registered layout as the code computes it: the
  extended motion packet declares \<open>m_wheelVertForce\<close> as one \<open>c_float\<close> where its
  docstring has \<open>float m_wheelVertForce[4]\<close>, and has 205 bytes.
\<close>

theorem C5_registered_sizes:
  "map (\<lambda>(key, cls). (key, size_cls cls)) HEADER_FIELD_TO_PACKET_TYPE =
    [((2023, 1, 0), 1349), ((2023, 1, 1), 644), ((2023, 1, 2), 1131), ((2023, 1, 3), 45),
     ((2023, 1, 4), 1306), ((2023, 1, 5), 1107), ((2023, 1, 6), 1352), ((2023, 1, 7), 1239),
     ((2023, 1, 8), 1020), ((2023, 1, 9), 1218), ((2023, 1, 10), 953), ((2023, 1, 11), 1460),
     ((2023, 1, 12), 231), ((2023, 1, 13), 205)]"
  by (simp add: HEADER_FIELD_TO_PACKET_TYPE_def size_cls_def
      sizeof_PacketMotionData sizeof_PacketSessionData sizeof_PacketLapData
      sizeof_PacketEventData sizeof_PacketParticipantsData sizeof_PacketCarSetupData
      sizeof_PacketCarTelemetryData sizeof_PacketCarStatusData
      sizeof_PacketFinalClassificationData sizeof_PacketLobbyInfoData
      sizeof_PacketCarDamageData sizeof_PacketSessionHistoryData sizeof_PacketTyreSetsData
      sizeof_PacketMotionExData)

subsection \<open>C6: rounding of floats in \<open>to_dict\<close>\<close>




subsection \<open>C7: character buffers\<close>



subsection \<open>C8: the length of a packed record\<close>

text \<open>
  C8: for every class, the record that \<open>unpack\<close> returns and the record that the
  constructor creates pack into exactly \<open>size()\<close> bytes; so does every record that
  is a field of an unpacked record, with the size of its own class.
\<close>

theorem C8_pack_length:
  "(unpack cls b = Inr r \<longrightarrow> (\<exists>bs. pack r = Inr bs \<and> length bs = size_cls cls))
   \<and> (\<exists>bs. pack (new cls) = Inr bs \<and> length bs = size_cls cls)
   \<and> (unpack cls b = Inr r \<and> getattr r k = Inr (CData t b')
        \<longrightarrow> pack (CData t b') = Inr b' \<and> length b' = size_cls t)"
proof (intro conjI impI)
  assume "unpack cls b = Inr r"
  then show "\<exists>bs. pack r = Inr bs \<and> length bs = size_cls cls"
    by (auto simp: unpack_def from_buffer_copy_def size_cls_def split: if_splits)
next
  show "\<exists>bs. pack (new cls) = Inr bs \<and> length bs = size_cls cls"
    by (simp add: new_def size_cls_def)
next
  assume a: "unpack cls b = Inr r \<and> getattr r k = Inr (CData t b')"
  then show "pack (CData t b') = Inr b'" by simp
  from a have "well_sized r"
    by (auto simp: unpack_def from_buffer_copy_def split: if_splits)
  with a have "well_sized (CData t b')" using well_sized_getattr by blast
  then show "length b' = size_cls t" by (simp add: size_cls_def)
qed

theorem C8_pack_length_witness:
  "unpack PacketEventData (replicate 45 7) = Inr (CData PacketEventData (replicate 45 7))
   \<and> pack (CData PacketEventData (replicate 45 7)) = Inr (replicate 45 7)
   \<and> length (replicate 45 (7 :: byte)) = size_cls PacketEventData
   \<and> getattr (CData PacketEventData (replicate 45 7)) ''header''
       = Inr (CData PacketHeader (replicate 29 7))
   \<and> length (replicate 29 (7 :: byte)) = size_cls PacketHeader"
proof -
  have h: "unpack PacketEventData (replicate 45 7) = Inr (CData PacketEventData (replicate 45 7))"
    by (simp add: unpack_def from_buffer_copy_def sizeof_PacketEventData)
  have g: "getattr (CData PacketEventData (replicate 45 7)) ''header''
       = Inr (CData PacketHeader (replicate 29 7))"
    by code_simp
  have "length (replicate 29 (7 :: byte)) = size_cls PacketHeader"
    using C8_pack_length [of PacketEventData "replicate 45 7" "CData PacketEventData (replicate 45 7)"
        "''header''" PacketHeader "replicate 29 7"] h g
    by blast
  then show ?thesis
    using C8_pack_length [of PacketEventData "replicate 45 7" "CData PacketEventData (replicate 45 7)"] h g
    by simp
qed

subsection \<open>C9: the duplicate field name of \<open>LapHistoryData\<close>\<close>

text \<open>
  C9: \<open>LapHistoryData\<close> declares eight fields and has 14 bytes, and the name
  \<open>sector1_time_minutes\<close> stands at offsets 6 and 12. For every record unpacked from
  a buffer \<open>b\<close>: exactly seven names have a descriptor; \<open>sector1_time_minutes\<close> reads
  the byte at offset 12, by attribute and in \<open>to_dict\<close>, whose dictionary has seven
  keys; and the byte at offset 6 is out of reach: changing it changes no attribute
  and not the dictionary.
\<close>

theorem C9_duplicate_field_name:
  assumes "unpack LapHistoryData b = Inr r"
  shows "size_cls LapHistoryData = 14
    \<and> length (fields_of LapHistoryData) = 8
    \<and> descriptor LapHistoryData ''sector1_time_minutes'' = Some (12, c_uint8)
    \<and> (\<forall>name. (descriptor LapHistoryData name \<noteq> None) =
          (name \<in> set [''lap_time_in_ms'', ''sector1_time_in_ms'', ''sector1_time_minutes'',
             ''sector2_time_in_ms'', ''sector2_time_minutes'', ''sector3_time_in_ms'',
             ''lap_valid_bit_flags'']))
    \<and> getattr r ''sector1_time_minutes'' = Inr (PInt (uint (b ! 12)))
    \<and> (\<exists>d. to_dict r = Inr (PDict d)
          \<and> map fst d = [''lap_time_in_ms'', ''sector1_time_in_ms'', ''sector1_time_minutes'',
                ''sector2_time_in_ms'', ''sector2_time_minutes'', ''sector3_time_in_ms'',
                ''lap_valid_bit_flags'']
          \<and> map_of d ''sector1_time_minutes'' = Some (PInt (uint (b ! 12))))
    \<and> (\<forall>x name. getattr (CData LapHistoryData ((take 14 b)[6 := x])) name = getattr r name)
    \<and> (\<forall>x. to_dict (CData LapHistoryData ((take 14 b)[6 := x])) = to_dict r)"
proof -
  from assms have len: "14 \<le> length b" and r: "r = CData LapHistoryData (take 14 b)"
    by (auto simp: unpack_def from_buffer_copy_def sizeof_LapHistoryData split: if_splits)
  note t = take_14 [OF len]
  have "size_cls LapHistoryData = 14" by (simp add: size_cls_def sizeof_LapHistoryData)
  moreover have "length (fields_of LapHistoryData) = 8" by (simp add: LapHistoryData_def)
  moreover have "descriptor LapHistoryData ''sector1_time_minutes'' = Some (12, c_uint8)"
    by (simp add: descriptor_LapHistoryData)
  moreover have "(descriptor LapHistoryData name \<noteq> None) =
          (name \<in> set [''lap_time_in_ms'', ''sector1_time_in_ms'', ''sector1_time_minutes'',
             ''sector2_time_in_ms'', ''sector2_time_minutes'', ''sector3_time_in_ms'',
             ''lap_valid_bit_flags''])" for name
    by (auto simp: descriptor_LapHistoryData)
  moreover have "getattr r ''sector1_time_minutes'' = Inr (PInt (uint (b ! 12)))"
    unfolding r t by (simp add: descriptor_LapHistoryData item_get_def)
  moreover have "\<exists>d. to_dict r = Inr (PDict d)
          \<and> map fst d = [''lap_time_in_ms'', ''sector1_time_in_ms'', ''sector1_time_minutes'',
                ''sector2_time_in_ms'', ''sector2_time_minutes'', ''sector3_time_in_ms'',
                ''lap_valid_bit_flags'']
          \<and> map_of d ''sector1_time_minutes'' = Some (PInt (uint (b ! 12)))"
    unfolding r t to_dict_LapHistoryData by simp
  moreover have "getattr (CData LapHistoryData ((take 14 b)[6 := x])) name = getattr r name" for x name
    unfolding r t update_6 by (rule getattr_LapHistoryData_byte6)
  moreover have "to_dict (CData LapHistoryData ((take 14 b)[6 := x])) = to_dict r" for x
    unfolding r t update_6 to_dict_LapHistoryData by (rule refl)
  ultimately show ?thesis by blast
qed

theorem C9_duplicate_field_name_witness:
  "unpack LapHistoryData [1, 2, 3, 4, 5, 6, 7, 8, 9, 10, 11, 12, 13, 14]
     = Inr (CData LapHistoryData [1, 2, 3, 4, 5, 6, 7, 8, 9, 10, 11, 12, 13, 14])
   \<and> getattr (CData LapHistoryData [1, 2, 3, 4, 5, 6, 7, 8, 9, 10, 11, 12, 13, 14])
        ''sector1_time_minutes'' = Inr (PInt 13)
   \<and> to_dict (CData LapHistoryData [1, 2, 3, 4, 5, 6, 99, 8, 9, 10, 11, 12, 13, 14])
       = to_dict (CData LapHistoryData [1, 2, 3, 4, 5, 6, 7, 8, 9, 10, 11, 12, 13, 14])"
proof -
  have h: "unpack LapHistoryData [1, 2, 3, 4, 5, 6, 7, 8, 9, 10, 11, 12, 13, 14]
     = Inr (CData LapHistoryData [1, 2, 3, 4, 5, 6, 7, 8, 9, 10, 11, 12, 13, 14])"
    by code_simp
  note c = C9_duplicate_field_name [OF h]
  from c have "getattr (CData LapHistoryData [1, 2, 3, 4, 5, 6, 7, 8, 9, 10, 11, 12, 13, 14])
        ''sector1_time_minutes'' = Inr (PInt (uint ([1, 2, 3, 4, 5, 6, 7, 8, 9, 10, 11, 12, 13, 14 :: byte] ! 12)))"
    by blast
  moreover from c have "to_dict (CData LapHistoryData
        ((take 14 [1, 2, 3, 4, 5, 6, 7, 8, 9, 10, 11, 12, 13, 14])[6 := 99]))
       = to_dict (CData LapHistoryData [1, 2, 3, 4, 5, 6, 7, 8, 9, 10, 11, 12, 13, 14])"
    by blast
  ultimately show ?thesis using h by simp
qed

subsection \<open>C10: \<open>TyreSetData.lap_delta_time\<close> is read unsigned\<close>

text \<open>
  C10: for every buffer that unpacks as \<open>TyreSetData\<close>, \<open>lap_delta_time\<close> is the
  little-endian value of the bytes at offsets 7 and 8, a number between 0 and 65535;
  where these two bytes are the 16-bit two's complement encoding of a negative \<open>s\<close>,
  the field reads \<open>s + 65536\<close>.
\<close>

theorem C10_lap_delta_time_unsigned:
  assumes "unpack TyreSetData b = Inr r"
  shows "getattr r ''lap_delta_time'' = Inr (PInt (uint (b ! 7) + 256 * uint (b ! 8)))
    \<and> 0 \<le> uint (b ! 7) + 256 * uint (b ! 8) \<and> uint (b ! 7) + 256 * uint (b ! 8) \<le> 65535
    \<and> (\<forall>s. - 32768 \<le> s \<and> s < 0 \<and> le_word [b ! 7, b ! 8] = (word_of_int s :: 16 word)
          \<longrightarrow> getattr r ''lap_delta_time'' = Inr (PInt (s + 65536)))"
proof -
  from assms have len: "10 \<le> length b" and r: "r = CData TyreSetData (take 10 b)"
    by (auto simp: unpack_def from_buffer_copy_def sizeof_TyreSetData split: if_splits)
  have v: "getattr r ''lap_delta_time'' = Inr (PInt (uint (le_word [b ! 7, b ! 8] :: 16 word)))"
    using len by (simp add: r descriptor_lap_delta_time drop_take take2_drop item_get_def)
  have b7: "0 \<le> uint (b ! 7)" "uint (b ! 7) < 256" using uint_bounded [of "b ! 7"] by simp_all
  have b8: "0 \<le> uint (b ! 8)" "uint (b ! 8) < 256" using uint_bounded [of "b ! 8"] by simp_all
  have neg: "getattr r ''lap_delta_time'' = Inr (PInt (s + 65536))"
    if "- 32768 \<le> s" "s < 0" "le_word [b ! 7, b ! 8] = (word_of_int s :: 16 word)" for s
  proof -
    have "uint (word_of_int s :: 16 word) = s mod 65536" by (simp add: uint_word_of_int)
    also have "\<dots> = s + 65536" using that(1,2)
      by (smt (verit) mod_add_self2 mod_pos_pos_trivial)
    finally show ?thesis using v that(3) by simp
  qed
  show ?thesis using v b7 b8 neg by (simp add: uint_le_word16)
qed

theorem C10_lap_delta_time_unsigned_witness:
  "unpack TyreSetData [16, 16, 3, 1, 0, 20, 25, 254, 255, 1]
     = Inr (CData TyreSetData [16, 16, 3, 1, 0, 20, 25, 254, 255, 1])
   \<and> le_word [254, 255] = (word_of_int (- 2) :: 16 word)
   \<and> getattr (CData TyreSetData [16, 16, 3, 1, 0, 20, 25, 254, 255, 1]) ''lap_delta_time''
     = Inr (PInt 65534)"
proof -
  have h: "unpack TyreSetData [16, 16, 3, 1, 0, 20, 25, 254, 255, 1]
     = Inr (CData TyreSetData [16, 16, 3, 1, 0, 20, 25, 254, 255, 1])"
    by (simp add: unpack_def from_buffer_copy_def sizeof_TyreSetData)
  have w: "le_word [254, 255] = (word_of_int (- 2) :: 16 word)"
    by (simp add: le_word_def le_int_def)
  show ?thesis using C10_lap_delta_time_unsigned [OF h] h w by simp
qed

end
